theory Spec2Isabelle
  imports Complex_Main "HOL-Library.AList"
begin

section \<open>Units and geometry\<close>

text \<open>
  The simulator stores every physical quantity as a \<^verbatim>\<open>double\<close> wrapped in a unit class
  (Meters, Radians, MetersPerSecond, RadiansPerSecond, Seconds). The embedding reads a
  \<^verbatim>\<open>double\<close> as a real number: rounding, infinities and NaN are outside the model, and
  every theorem below that depends on a quotient excludes a zero divisor by a hypothesis.
  All quantities are held in their base units (metres, radians, seconds).
\<close>

record Cartesian =
  getX :: real
  getY :: real

definition cartesianMinus :: "Cartesian \<Rightarrow> Cartesian \<Rightarrow> Cartesian" where
  "cartesianMinus a b = \<lparr>getX = getX a - getX b, getY = getY a - getY b\<rparr>"

definition cartesianPlus :: "Cartesian \<Rightarrow> Cartesian \<Rightarrow> Cartesian" where
  "cartesianPlus a b = \<lparr>getX = getX a + getX b, getY = getY a + getY b\<rparr>"

text \<open>
  Modelled from the spec: the accessors \<^verbatim>\<open>Cartesian::getRho\<close> and \<^verbatim>\<open>Cartesian::getTheta\<close> of the units
  library, which is not part of the sources. The spec gives them as the Euclidean norm and the
  \<^verbatim>\<open>atan2\<close> angle of the point.
\<close>

definition atan2 :: "real \<Rightarrow> real \<Rightarrow> real" where
  "atan2 y x =
     (if 0 < x then arctan (y / x)
      else if x < 0 then (if 0 \<le> y then arctan (y / x) + pi else arctan (y / x) - pi)
      else if 0 < y then pi / 2
      else if y < 0 then - (pi / 2)
      else 0)"

definition getRho :: "Cartesian \<Rightarrow> real" where
  "getRho c = sqrt ((getX c)\<^sup>2 + (getY c)\<^sup>2)"

definition getTheta :: "Cartesian \<Rightarrow> real" where
  "getTheta c = atan2 (getY c) (getX c)"

type_synonym Polygon = "Cartesian list"

text \<open>
  Modelled from the spec: \<^verbatim>\<open>GeometryUtilities::translateVertex\<close>, \<^verbatim>\<open>GeometryUtilities::rotateVertexAroundPoint\<close>,
  \<^verbatim>\<open>Polygon::translate\<close> and \<^verbatim>\<open>Polygon::rotateAroundPoint\<close>, which are not part of the sources. A polygon
  is an ordered list of vertices; translating adds the displacement to every vertex and
  rotating turns every vertex counter-clockwise about the pivot.
\<close>

definition translateVertex :: "Cartesian \<Rightarrow> Cartesian \<Rightarrow> Cartesian" where
  "translateVertex v d = cartesianPlus v d"

definition rotateVertexAroundPoint :: "Cartesian \<Rightarrow> real \<Rightarrow> Cartesian \<Rightarrow> Cartesian" where
  "rotateVertexAroundPoint v a p =
     (let dx = getX v - getX p; dy = getY v - getY p
      in \<lparr>getX = getX p + dx * cos a - dy * sin a,
          getY = getY p + dx * sin a + dy * cos a\<rparr>)"

definition translate :: "Polygon \<Rightarrow> Cartesian \<Rightarrow> Polygon" where
  "translate poly d = map (\<lambda>v. translateVertex v d) poly"

definition rotateAroundPoint :: "Polygon \<Rightarrow> real \<Rightarrow> Cartesian \<Rightarrow> Polygon" where
  "rotateAroundPoint poly a p = map (\<lambda>v. rotateVertexAroundPoint v a p) poly"

section \<open>Wheels, sensors and the mouse\<close>

text \<open>
  The classes \<^verbatim>\<open>Wheel\<close> and \<^verbatim>\<open>Sensor\<close> are declared outside the sources; the records hold the
  fields that \<^verbatim>\<open>Mouse.cpp\<close> reads and writes through their accessors.
\<close>

record Wheel =
  wheelInitialPosition :: Cartesian
  wheelInitialDirection :: real
  getRadius :: real
  getMaxAngularVelocityMagnitude :: real
  getAngularVelocity :: real
  wheelRotation :: real
  wheelInitialPolygon :: Polygon
  getSpeedIndicatorPolygon :: Polygon

record Sensor =
  sensorInitialPosition :: Cartesian
  sensorInitialDirection :: real
  sensorInitialPolygon :: Polygon
  sensorReading :: real

text \<open>
  Modelled from the spec: \<^verbatim>\<open>Wheel::updateRotation\<close> and \<^verbatim>\<open>Wheel::setAngularVelocity\<close>, which are not
  part of the sources. The first adds an angle to the rotation the encoders read, the second
  stores the signed angular velocity.
\<close>

definition updateRotation :: "real \<Rightarrow> Wheel \<Rightarrow> Wheel" where
  "updateRotation a w = w\<lparr>wheelRotation := wheelRotation w + a\<rparr>"

definition setAngularVelocity :: "real \<Rightarrow> Wheel \<Rightarrow> Wheel" where
  "setAngularVelocity v w = w\<lparr>getAngularVelocity := v\<rparr>"

text \<open>
  \<^verbatim>\<open>std::map<std::string, Wheel>\<close> is an association list; the keys of a \<^verbatim>\<open>std::map\<close> are
  unique, which the theorems that look a wheel up by name assume as \<open>distinct (map fst ws)\<close>.
\<close>

record Mouse =
  getInitialTranslation :: Cartesian
  getInitialRotation :: real
  getCurrentTranslation :: Cartesian
  getCurrentRotation :: real
  currentGyro :: real
  elapsedSimTime :: real
  initialBodyPolygon :: Polygon
  initialCollisionPolygon :: Polygon
  initialCenterOfMassPolygon :: Polygon
  wheels :: "(string \<times> Wheel) list"
  sensors :: "(string \<times> Sensor) list"
  wheelSpeedAdjustmentFactors :: "(string \<times> real \<times> real) list"
  curveTurnFactors :: "real \<times> real"

subsection \<open>Mouse::getRatesOfChange\<close>

definition getRatesOfChange ::
  "Cartesian \<Rightarrow> real \<Rightarrow> Cartesian \<Rightarrow> real \<Rightarrow> real \<Rightarrow> real \<times> real" where
  "getRatesOfChange initialTranslation initialRotation wheelPosition wheelDirection
       wheelLinearVelocity =
     (let forwardRateOfChange = wheelLinearVelocity * cos (initialRotation - wheelDirection);
          wheelToCenter = cartesianMinus initialTranslation wheelPosition;
          radialRateOfChange =
            wheelLinearVelocity * sin (getTheta wheelToCenter - wheelDirection)
              * (1 / getRho wheelToCenter)
      in (forwardRateOfChange, radialRateOfChange))"

subsection \<open>Mouse::update\<close>

text \<open>
  The accumulation loop of \<^verbatim>\<open>Mouse::update\<close>: the three running sums after the wheels still to
  be visited. The cosine and sine are those of \<^verbatim>\<open>getCurrentRotation()\<close>, read inside the loop,
  before \<^verbatim>\<open>m_currentRotation\<close> is assigned.
\<close>

fun updateLoop :: "Mouse \<Rightarrow> (string \<times> Wheel) list \<Rightarrow> real \<times> real \<times> real \<Rightarrow> real \<times> real \<times> real" where
  "updateLoop m [] totals = totals"
| "updateLoop m ((name, wheel) # rest) (sumDx, sumDy, sumDr) =
     (let ratesOfChange =
            getRatesOfChange (getInitialTranslation m) (getInitialRotation m)
              (wheelInitialPosition wheel) (wheelInitialDirection wheel)
              (getAngularVelocity wheel * getRadius wheel)
      in updateLoop m rest
           (sumDx + fst ratesOfChange * cos (getCurrentRotation m),
            sumDy + fst ratesOfChange * sin (getCurrentRotation m),
            sumDr + snd ratesOfChange))"

definition getCurrentSensorPositionAndDirection ::
  "Mouse \<Rightarrow> Sensor \<Rightarrow> Cartesian \<Rightarrow> real \<Rightarrow> Cartesian \<times> real" where
  "getCurrentSensorPositionAndDirection m sensor currentTranslation currentRotation =
     (let translationDelta = cartesianMinus currentTranslation (getInitialTranslation m);
          rotationDelta = currentRotation - getInitialRotation m
      in (rotateVertexAroundPoint
            (translateVertex (sensorInitialPosition sensor) translationDelta)
            rotationDelta currentTranslation,
          sensorInitialDirection sensor + rotationDelta))"

text \<open>
  \<^verbatim>\<open>Sensor::updateReading\<close> casts rays into the maze and is not part of the sources: it is the
  parameter \<open>updateReading\<close>, which receives the sensor's current position and direction.
  The mutex taken by the source is not modelled: the embedding is sequential. Every wheel's
  rotation is advanced inside the accumulation loop by \<^verbatim>\<open>m_wheels.at(wheel.first)\<close>, the element
  being visited.
\<close>

definition update :: "(Cartesian \<Rightarrow> real \<Rightarrow> Sensor \<Rightarrow> Sensor) \<Rightarrow> real \<Rightarrow> Mouse \<Rightarrow> Mouse" where
  "update updateReading elapsed m =
     (case updateLoop m (wheels m) (0, 0, 0) of (sumDx, sumDy, sumDr) \<Rightarrow>
        let wheels' = map (\<lambda>(name, wheel).
                        (name, updateRotation (getAngularVelocity wheel * elapsed) wheel)) (wheels m);
            aveDx = sumDx / real (length (wheels m));
            aveDy = sumDy / real (length (wheels m));
            aveDr = sumDr / real (length (wheels m));
            rotation' = getCurrentRotation m + aveDr * elapsed;
            translation' = cartesianPlus (getCurrentTranslation m)
                             \<lparr>getX = aveDx * elapsed, getY = aveDy * elapsed\<rparr>;
            sensors' = map (\<lambda>(name, sensor).
                         (name,
                          case getCurrentSensorPositionAndDirection m sensor translation' rotation'
                          of (position, direction) \<Rightarrow> updateReading position direction sensor))
                         (sensors m)
        in m\<lparr>currentGyro := aveDr,
             getCurrentRotation := rotation',
             getCurrentTranslation := translation',
             wheels := wheels',
             sensors := sensors',
             elapsedSimTime := elapsedSimTime m + elapsed\<rparr>)"

text \<open>The rates the integrator averages, stated directly as sums over the wheels.\<close>

definition wheelRates :: "Mouse \<Rightarrow> Wheel \<Rightarrow> real \<times> real" where
  "wheelRates m wheel =
     getRatesOfChange (getInitialTranslation m) (getInitialRotation m)
       (wheelInitialPosition wheel) (wheelInitialDirection wheel)
       (getAngularVelocity wheel * getRadius wheel)"

definition averageForwardRate :: "Mouse \<Rightarrow> real" where
  "averageForwardRate m =
     sum_list (map (\<lambda>(name, wheel). fst (wheelRates m wheel)) (wheels m)) / real (length (wheels m))"

definition averageRadialRate :: "Mouse \<Rightarrow> real" where
  "averageRadialRate m =
     sum_list (map (\<lambda>(name, wheel). snd (wheelRates m wheel)) (wheels m)) / real (length (wheels m))"

subsection \<open>Current polygons\<close>

definition getCurrentPolygon :: "Mouse \<Rightarrow> Polygon \<Rightarrow> Cartesian \<Rightarrow> real \<Rightarrow> Polygon" where
  "getCurrentPolygon m initialPolygon currentTranslation currentRotation =
     rotateAroundPoint
       (translate initialPolygon (cartesianMinus currentTranslation (getInitialTranslation m)))
       (currentRotation - getInitialRotation m) currentTranslation"

definition getCurrentBodyPolygon :: "Mouse \<Rightarrow> Cartesian \<Rightarrow> real \<Rightarrow> Polygon" where
  "getCurrentBodyPolygon m currentTranslation currentRotation =
     getCurrentPolygon m (initialBodyPolygon m) currentTranslation currentRotation"

definition getCurrentCollisionPolygon :: "Mouse \<Rightarrow> Cartesian \<Rightarrow> real \<Rightarrow> Polygon" where
  "getCurrentCollisionPolygon m currentTranslation currentRotation =
     getCurrentPolygon m (initialCollisionPolygon m) currentTranslation currentRotation"

definition getCurrentCenterOfMassPolygon :: "Mouse \<Rightarrow> Cartesian \<Rightarrow> real \<Rightarrow> Polygon" where
  "getCurrentCenterOfMassPolygon m currentTranslation currentRotation =
     getCurrentPolygon m (initialCenterOfMassPolygon m) currentTranslation currentRotation"

definition getCurrentWheelPolygons :: "Mouse \<Rightarrow> Cartesian \<Rightarrow> real \<Rightarrow> Polygon list" where
  "getCurrentWheelPolygons m currentTranslation currentRotation =
     map (\<lambda>(name, wheel).
            getCurrentPolygon m (wheelInitialPolygon wheel) currentTranslation currentRotation)
       (wheels m)"

definition getCurrentWheelSpeedIndicatorPolygons :: "Mouse \<Rightarrow> Cartesian \<Rightarrow> real \<Rightarrow> Polygon list" where
  "getCurrentWheelSpeedIndicatorPolygons m currentTranslation currentRotation =
     map (\<lambda>(name, wheel).
            getCurrentPolygon m (getSpeedIndicatorPolygon wheel) currentTranslation currentRotation)
       (wheels m)"

definition getCurrentSensorPolygons :: "Mouse \<Rightarrow> Cartesian \<Rightarrow> real \<Rightarrow> Polygon list" where
  "getCurrentSensorPolygons m currentTranslation currentRotation =
     map (\<lambda>(name, sensor).
            getCurrentPolygon m (sensorInitialPolygon sensor) currentTranslation currentRotation)
       (sensors m)"

subsection \<open>Setting wheel speeds\<close>

text \<open>
  Modelled from the spec: the macros \<^verbatim>\<open>ASSERT_TR\<close> and \<^verbatim>\<open>ASSERT_LE\<close> of \<^verbatim>\<open>Assert.h\<close>, which is not part
  of the sources. The spec makes internal assertions fatal, so a failed assertion ends the
  call with \<open>Inl AssertionFailed\<close> and no later statement runs.
  \<open>Inl OutOfRange\<close> is the \<^verbatim>\<open>std::out_of_range\<close> that \<^verbatim>\<open>at\<close> throws for a missing key or index.
\<close>

datatype failure = AssertionFailed | OutOfRange

text \<open>
  Where the value of a floating-point computation decides an assertion, reading a \<^verbatim>\<open>double\<close>
  as a real number would decide the assertion differently from the source, so there the
  embedding keeps the \<^verbatim>\<open>double\<close>: a finite value, an infinity or NaN. Every operation rounds
  its exact result with the function \<open>rounded\<close>, which the functions below take as their first
  argument. Dividing by zero gives NaN for a zero dividend and an infinity otherwise, and a
  comparison with NaN is false. Signed zeros, overflow and subnormal numbers are outside the
  model.
\<close>

datatype double = Finite real | PlusInfinity | MinusInfinity | NaN

definition divideDouble :: "(real \<Rightarrow> real) \<Rightarrow> real \<Rightarrow> real \<Rightarrow> double" where
  "divideDouble rounded a b =
     (if b = 0 then (if a = 0 then NaN else if 0 < a then PlusInfinity else MinusInfinity)
      else Finite (rounded (a / b)))"

fun absDouble :: "double \<Rightarrow> double" where
  "absDouble (Finite x) = Finite \<bar>x\<bar>"
| "absDouble PlusInfinity = PlusInfinity"
| "absDouble MinusInfinity = PlusInfinity"
| "absDouble NaN = NaN"

fun addDouble :: "(real \<Rightarrow> real) \<Rightarrow> double \<Rightarrow> double \<Rightarrow> double" where
  "addDouble rounded (Finite x) (Finite y) = Finite (rounded (x + y))"
| "addDouble rounded NaN b = NaN"
| "addDouble rounded a NaN = NaN"
| "addDouble rounded PlusInfinity MinusInfinity = NaN"
| "addDouble rounded MinusInfinity PlusInfinity = NaN"
| "addDouble rounded PlusInfinity b = PlusInfinity"
| "addDouble rounded a PlusInfinity = PlusInfinity"
| "addDouble rounded MinusInfinity b = MinusInfinity"
| "addDouble rounded a MinusInfinity = MinusInfinity"

fun lessEqDouble :: "double \<Rightarrow> double \<Rightarrow> bool" where
  "lessEqDouble (Finite x) (Finite y) = (x \<le> y)"
| "lessEqDouble NaN b = False"
| "lessEqDouble a NaN = False"
| "lessEqDouble MinusInfinity b = True"
| "lessEqDouble a PlusInfinity = True"
| "lessEqDouble PlusInfinity b = False"
| "lessEqDouble a MinusInfinity = False"

text \<open>
  The rounding of IEEE 754 binary64 arithmetic, which a C++ \<^verbatim>\<open>double\<close> has on the usual
  platforms: the nearest number with a significand of 53 bits, the even one of two
  nearest. The exponent is not bounded.
\<close>

definition roundHalfEven :: "real \<Rightarrow> int" where
  "roundHalfEven x =
     (let n = \<lfloor>x\<rfloor>; r = x - of_int n
      in if r < 1 / 2 then n else if 1 / 2 < r then n + 1 else if even n then n else n + 1)"

definition roundToDouble :: "real \<Rightarrow> real" where
  "roundToDouble x =
     (if x = 0 then 0
      else let e = \<lfloor>log 2 \<bar>x\<bar>\<rfloor>
           in of_int (roundHalfEven (x / 2 powi (e - 52))) * 2 powi (e - 52))"

text \<open>
  Modelled from the spec: \<^verbatim>\<open>RadiansPerSecond::getRevolutionsPerMinute\<close> of the units library, which
  is not part of the sources: one revolution is \<open>2 * pi\<close> radians and one minute is 60 seconds.
\<close>

definition getRevolutionsPerMinute :: "real \<Rightarrow> real" where
  "getRevolutionsPerMinute radiansPerSecond = radiansPerSecond * 60 / (2 * pi)"

definition getWheelMaxSpeed :: "(string \<times> Wheel) list \<Rightarrow> string \<Rightarrow> failure + real" where
  "getWheelMaxSpeed ws name =
     (case map_of ws name of
        None \<Rightarrow> Inl AssertionFailed
      | Some wheel \<Rightarrow> Inr (getMaxAngularVelocityMagnitude wheel))"

text \<open>
  The loop of \<^verbatim>\<open>Mouse::setWheelSpeeds\<close> over the requested speeds, threading the wheel map:
  each entry is checked against the wheel's maximum and then stored.
\<close>

fun setWheelSpeedsLoop ::
  "(string \<times> real) list \<Rightarrow> (string \<times> Wheel) list \<Rightarrow> failure + (string \<times> Wheel) list" where
  "setWheelSpeedsLoop [] ws = Inr ws"
| "setWheelSpeedsLoop ((name, speed) # rest) ws =
     (case map_of ws name of
        None \<Rightarrow> Inl AssertionFailed
      | Some wheel \<Rightarrow>
          (case getWheelMaxSpeed ws name of
             Inl e \<Rightarrow> Inl e
           | Inr maxSpeed \<Rightarrow>
               if \<not> \<bar>getRevolutionsPerMinute speed\<bar> \<le> getRevolutionsPerMinute maxSpeed
               then Inl AssertionFailed
               else setWheelSpeedsLoop rest
                      (AList.update name (setAngularVelocity speed wheel) ws)))"

definition setWheelSpeeds :: "(string \<times> real) list \<Rightarrow> Mouse \<Rightarrow> failure + Mouse" where
  "setWheelSpeeds wheelSpeeds m =
     (case setWheelSpeedsLoop wheelSpeeds (wheels m) of
        Inl e \<Rightarrow> Inl e
      | Inr ws \<Rightarrow> Inr (m\<lparr>wheels := ws\<rparr>))"

text \<open>
  The loop of \<^verbatim>\<open>Mouse::setWheelSpeedsForMovement\<close> that fills the map of requested speeds. The
  wheel names are the keys of a \<^verbatim>\<open>std::map\<close>, so every \<^verbatim>\<open>insert\<close> adds a new entry.
\<close>

fun movementSpeeds ::
  "(real \<Rightarrow> real) \<Rightarrow> (string \<times> real \<times> real) list \<Rightarrow> real \<Rightarrow> real \<Rightarrow> real \<Rightarrow> (string \<times> Wheel) list
     \<Rightarrow> failure + (string \<times> real) list" where
  "movementSpeeds rounded factors fractionOfMaxSpeed normalizedForwardFactor normalizedTurnFactor
       [] =
     Inr []"
| "movementSpeeds rounded factors fractionOfMaxSpeed normalizedForwardFactor normalizedTurnFactor
       ((name, wheel) # rest) =
     (case map_of factors name of
        None \<Rightarrow> Inl AssertionFailed
      | Some adjustmentFactors \<Rightarrow>
          (case movementSpeeds rounded factors fractionOfMaxSpeed normalizedForwardFactor
                  normalizedTurnFactor rest of
             Inl e \<Rightarrow> Inl e
           | Inr wheelSpeeds \<Rightarrow>
               Inr ((name,
                     rounded
                       (rounded (getMaxAngularVelocityMagnitude wheel * fractionOfMaxSpeed) *
                        rounded
                          (rounded (normalizedForwardFactor * fst adjustmentFactors) +
                           rounded (normalizedTurnFactor * snd adjustmentFactors))))
                    # wheelSpeeds)))"

text \<open>
  The sum of the magnitudes of the two normalised factors, as lines 398 to 403 compute it:
  the sum of the magnitudes is rounded, each factor is divided by it, and the magnitudes of
  the two quotients are added.
\<close>

definition normalizedFactorMagnitude :: "(real \<Rightarrow> real) \<Rightarrow> real \<Rightarrow> real \<Rightarrow> double" where
  "normalizedFactorMagnitude rounded forwardFactor turnFactor =
     (let factorMagnitude = rounded (\<bar>forwardFactor\<bar> + \<bar>turnFactor\<bar>);
          normalizedForwardFactor = divideDouble rounded forwardFactor factorMagnitude;
          normalizedTurnFactor = divideDouble rounded turnFactor factorMagnitude
      in addDouble rounded (absDouble normalizedForwardFactor) (absDouble normalizedTurnFactor))"

text \<open>
  \<^verbatim>\<open>Mouse::setWheelSpeedsForMovement\<close>. The division is not guarded. When one of the two
  normalised factors is not finite, the sum of their magnitudes is NaN or infinite and one of
  the two assertions fails, so the last case of the model, which has no speeds to compute,
  is never taken.
\<close>

definition setWheelSpeedsForMovement ::
  "(real \<Rightarrow> real) \<Rightarrow> real \<Rightarrow> real \<Rightarrow> real \<Rightarrow> Mouse \<Rightarrow> failure + Mouse" where
  "setWheelSpeedsForMovement rounded fractionOfMaxSpeed forwardFactor turnFactor m =
     (let factorMagnitude = rounded (\<bar>forwardFactor\<bar> + \<bar>turnFactor\<bar>);
          normalizedForwardFactor = divideDouble rounded forwardFactor factorMagnitude;
          normalizedTurnFactor = divideDouble rounded turnFactor factorMagnitude;
          magnitude = addDouble rounded (absDouble normalizedForwardFactor)
                        (absDouble normalizedTurnFactor)
      in if \<not> lessEqDouble (Finite 0) magnitude then Inl AssertionFailed
         else if \<not> lessEqDouble magnitude (Finite 1) then Inl AssertionFailed
         else
           (case (normalizedForwardFactor, normalizedTurnFactor) of
              (Finite forward, Finite turn) \<Rightarrow>
                (case movementSpeeds rounded (wheelSpeedAdjustmentFactors m) fractionOfMaxSpeed
                        forward turn (wheels m) of
                   Inl e \<Rightarrow> Inl e
                 | Inr wheelSpeeds \<Rightarrow> setWheelSpeeds wheelSpeeds m)
            | _ \<Rightarrow> Inl AssertionFailed))"

definition setWheelSpeedsForMoveForward :: "(real \<Rightarrow> real) \<Rightarrow> real \<Rightarrow> Mouse \<Rightarrow> failure + Mouse" where
  "setWheelSpeedsForMoveForward rounded fractionOfMaxSpeed m =
     setWheelSpeedsForMovement rounded fractionOfMaxSpeed 1 0 m"

definition setWheelSpeedsForTurnLeft :: "(real \<Rightarrow> real) \<Rightarrow> real \<Rightarrow> Mouse \<Rightarrow> failure + Mouse" where
  "setWheelSpeedsForTurnLeft rounded fractionOfMaxSpeed m =
     setWheelSpeedsForMovement rounded fractionOfMaxSpeed 0 1 m"

definition setWheelSpeedsForTurnRight :: "(real \<Rightarrow> real) \<Rightarrow> real \<Rightarrow> Mouse \<Rightarrow> failure + Mouse" where
  "setWheelSpeedsForTurnRight rounded fractionOfMaxSpeed m =
     setWheelSpeedsForMovement rounded fractionOfMaxSpeed 0 (- 1) m"

definition setWheelSpeedsForCurveTurnLeft :: "(real \<Rightarrow> real) \<Rightarrow> real \<Rightarrow> Mouse \<Rightarrow> failure + Mouse" where
  "setWheelSpeedsForCurveTurnLeft rounded fractionOfMaxSpeed m =
     setWheelSpeedsForMovement rounded fractionOfMaxSpeed
       (fst (curveTurnFactors m)) (snd (curveTurnFactors m)) m"

definition setWheelSpeedsForCurveTurnRight :: "(real \<Rightarrow> real) \<Rightarrow> real \<Rightarrow> Mouse \<Rightarrow> failure + Mouse" where
  "setWheelSpeedsForCurveTurnRight rounded fractionOfMaxSpeed m =
     setWheelSpeedsForMovement rounded fractionOfMaxSpeed
       (fst (curveTurnFactors m)) (rounded (- 1 * snd (curveTurnFactors m))) m"

definition stopAllWheels :: "Mouse \<Rightarrow> failure + Mouse" where
  "stopAllWheels m = setWheelSpeeds (map (\<lambda>(name, wheel). (name, 0)) (wheels m)) m"

subsection \<open>Wheel-speed adjustment factors and curve-turn factors\<close>

definition ratesOfChangePairs ::
  "Cartesian \<Rightarrow> real \<Rightarrow> (string \<times> Wheel) list \<Rightarrow> (string \<times> real \<times> real) list" where
  "ratesOfChangePairs initialTranslation initialRotation ws =
     map (\<lambda>(name, wheel).
            (name,
             getRatesOfChange initialTranslation initialRotation
               (wheelInitialPosition wheel) (wheelInitialDirection wheel)
               (getMaxAngularVelocityMagnitude wheel * getRadius wheel))) ws"

fun largestMagnitudes :: "(string \<times> real \<times> real) list \<Rightarrow> real \<times> real \<Rightarrow> real \<times> real" where
  "largestMagnitudes [] maxima = maxima"
| "largestMagnitudes ((name, forwardRate, radialRate) # rest) (maxForward, maxRadial) =
     largestMagnitudes rest
       (if maxForward < \<bar>forwardRate\<bar> then \<bar>forwardRate\<bar> else maxForward,
        if maxRadial < \<bar>radialRate\<bar> then \<bar>radialRate\<bar> else maxRadial)"

text \<open>
  The loop that divides by the largest magnitudes. Neither division is guarded. The four
  assertions let only finite contributions through (NaN fails the first or the second, an
  infinity one of the four), so the last case of the model is never taken.
\<close>

fun normalizedContributions ::
  "(real \<Rightarrow> real) \<Rightarrow> real \<Rightarrow> real \<Rightarrow> (string \<times> real \<times> real) list
     \<Rightarrow> failure + (string \<times> real \<times> real) list" where
  "normalizedContributions rounded maxForward maxRadial [] = Inr []"
| "normalizedContributions rounded maxForward maxRadial ((name, forwardRate, radialRate) # rest) =
     (let normalizedForwardContribution = divideDouble rounded forwardRate maxForward;
          normalizedRadialContribution = divideDouble rounded radialRate maxRadial
      in if \<not> lessEqDouble (Finite (- 1)) normalizedForwardContribution then Inl AssertionFailed
         else if \<not> lessEqDouble (Finite (- 1)) normalizedRadialContribution
         then Inl AssertionFailed
         else if \<not> lessEqDouble normalizedForwardContribution (Finite 1) then Inl AssertionFailed
         else if \<not> lessEqDouble normalizedRadialContribution (Finite 1) then Inl AssertionFailed
         else
           (case (normalizedForwardContribution, normalizedRadialContribution) of
              (Finite forward, Finite radial) \<Rightarrow>
                (case normalizedContributions rounded maxForward maxRadial rest of
                   Inl e \<Rightarrow> Inl e
                 | Inr adjustmentFactors \<Rightarrow> Inr ((name, forward, radial) # adjustmentFactors))
            | _ \<Rightarrow> Inl AssertionFailed))"

definition getWheelSpeedAdjustmentFactors ::
  "(real \<Rightarrow> real) \<Rightarrow> Cartesian \<Rightarrow> real \<Rightarrow> (string \<times> Wheel) list
     \<Rightarrow> failure + (string \<times> real \<times> real) list" where
  "getWheelSpeedAdjustmentFactors rounded initialTranslation initialRotation ws =
     (let pairs = ratesOfChangePairs initialTranslation initialRotation ws
      in case largestMagnitudes pairs (0, 0) of
           (maxForwardRateOfChangeMagnitude, maxRadialRateOfChangeMagnitude) \<Rightarrow>
             normalizedContributions rounded maxForwardRateOfChangeMagnitude
               maxRadialRateOfChangeMagnitude pairs)"

text \<open>
  Modelled from the spec: \<^verbatim>\<open>Degrees\<close> and \<^verbatim>\<open>Angle::getRadiansZeroTo2pi\<close> of the units library, which are
  not part of the sources: an angle in degrees is held in radians, and the accessor gives the
  angle normalised to the interval from 0 (included) to \<open>2 * pi\<close> (excluded).
\<close>

definition Degrees :: "real \<Rightarrow> real" where
  "Degrees d = d * pi / 180"

definition getRadiansZeroTo2pi :: "real \<Rightarrow> real" where
  "getRadiansZeroTo2pi a = a - 2 * pi * of_int \<lfloor>a / (2 * pi)\<rfloor>"

text \<open>
  The loop of \<^verbatim>\<open>Mouse::getCurveTurnFactors\<close>: for every wheel, the rates of change at the maximum
  linear velocity scaled by the first and then by the second adjustment factor are added to
  the running totals. The rates and the quotient of the totals are read as real numbers.
  For a wheel at the initial centre the radial rate of the source is not a number, and for
  a total forward rate of zero neither is the quotient: the statements about the result
  exclude both by hypothesis.
\<close>

fun totalRatesOfChange ::
  "Cartesian \<Rightarrow> real \<Rightarrow> (string \<times> real \<times> real) list \<Rightarrow> (string \<times> Wheel) list \<Rightarrow> real \<times> real
     \<Rightarrow> failure + real \<times> real" where
  "totalRatesOfChange initialTranslation initialRotation factors [] totals = Inr totals"
| "totalRatesOfChange initialTranslation initialRotation factors ((name, wheel) # rest)
       (totalForward, totalRadial) =
     (let maxLinearVelocity = getMaxAngularVelocityMagnitude wheel * getRadius wheel
      in case map_of factors name of
           None \<Rightarrow> Inl AssertionFailed
         | Some adjustmentFactors \<Rightarrow>
             let first = getRatesOfChange initialTranslation initialRotation
                           (wheelInitialPosition wheel) (wheelInitialDirection wheel)
                           (maxLinearVelocity * fst adjustmentFactors);
                 second = getRatesOfChange initialTranslation initialRotation
                            (wheelInitialPosition wheel) (wheelInitialDirection wheel)
                            (maxLinearVelocity * snd adjustmentFactors)
             in totalRatesOfChange initialTranslation initialRotation factors rest
                  (totalForward + fst first + fst second,
                   totalRadial + snd first + snd second))"

definition getCurveTurnFactors ::
  "Cartesian \<Rightarrow> real \<Rightarrow> (string \<times> Wheel) list \<Rightarrow> (string \<times> real \<times> real) list \<Rightarrow> real
     \<Rightarrow> failure + real \<times> real" where
  "getCurveTurnFactors initialTranslation initialRotation ws factors curveTurnArcLength =
     (case totalRatesOfChange initialTranslation initialRotation factors ws (0, 0) of
        Inl e \<Rightarrow> Inl e
      | Inr (totalForwardRateOfChange, totalRadialRateOfChange) \<Rightarrow>
          let totalDistance = curveTurnArcLength;
              totalRotation = Degrees 90;
              B = 1;
              A = (totalDistance / getRadiansZeroTo2pi totalRotation) *
                  (totalRadialRateOfChange / totalForwardRateOfChange)
          in Inr (A, B))"

subsection \<open>Mouse::initialize\<close>

datatype Direction = NORTH | EAST | SOUTH | WEST

text \<open>
  Modelled from the spec: the table \<^verbatim>\<open>DIRECTION_TO_ANGLE\<close>, which is not part of the sources:
  east is 0, north 90, west 180 and south 270 degrees.
\<close>

fun DIRECTION_TO_ANGLE :: "Direction \<Rightarrow> real" where
  "DIRECTION_TO_ANGLE EAST = Degrees 0"
| "DIRECTION_TO_ANGLE NORTH = Degrees 90"
| "DIRECTION_TO_ANGLE WEST = Degrees 180"
| "DIRECTION_TO_ANGLE SOUTH = Degrees 270"

text \<open>
  What \<^verbatim>\<open>Mouse::initialize\<close> takes from outside the sources: the parameters \<^verbatim>\<open>wallLength\<close> and
  \<^verbatim>\<open>wallWidth\<close>, the \<^verbatim>\<open>MouseParser\<close> (whether the file was read, and what \<^verbatim>\<open>getBody\<close>,
  \<^verbatim>\<open>getWheels\<close> and \<^verbatim>\<open>getSensors\<close> return for an initial pose, each with the success flag it
  leaves), and the geometry helpers \<^verbatim>\<open>convexHull\<close> and \<^verbatim>\<open>createCirclePolygon\<close>.
\<close>

record Collaborators =
  wallLength :: real
  wallWidth :: real
  parserSuccess :: bool
  getBody :: "Cartesian \<Rightarrow> real \<Rightarrow> Polygon \<times> bool"
  getWheels :: "Cartesian \<Rightarrow> real \<Rightarrow> (string \<times> Wheel) list \<times> bool"
  getSensors :: "Cartesian \<Rightarrow> real \<Rightarrow> (string \<times> Sensor) list \<times> bool"
  convexHull :: "Polygon list \<Rightarrow> Polygon"
  createCirclePolygon :: "Cartesian \<Rightarrow> real \<Rightarrow> nat \<Rightarrow> Polygon"

text \<open>
  The result is the value \<^verbatim>\<open>initialize\<close> returns together with the mouse it leaves behind.
  Each parser call receives the address of the one \<^verbatim>\<open>success\<close> flag; the model takes the flag
  to be cleared when any of them reports a failure.
\<close>

definition initialize ::
  "(real \<Rightarrow> real) \<Rightarrow> Collaborators \<Rightarrow> Direction \<Rightarrow> Mouse \<Rightarrow> failure + bool \<times> Mouse" where
  "initialize rounded env initialDirection m =
     (let halfOfTileDistance = (wallLength env + wallWidth env) / 2;
          initialTranslation = \<lparr>getX = halfOfTileDistance, getY = halfOfTileDistance\<rparr>;
          initialRotation = DIRECTION_TO_ANGLE initialDirection;
          m1 = m\<lparr>getInitialTranslation := initialTranslation,
                 getCurrentTranslation := initialTranslation,
                 getInitialRotation := initialRotation,
                 getCurrentRotation := initialRotation\<rparr>
      in if \<not> parserSuccess env then Inr (False, m1)
         else
           case getBody env initialTranslation initialRotation of (body, bodyOk) \<Rightarrow>
           case getWheels env initialTranslation initialRotation of (ws, wheelsOk) \<Rightarrow>
           case getSensors env initialTranslation initialRotation of (ss, sensorsOk) \<Rightarrow>
           case getWheelSpeedAdjustmentFactors rounded initialTranslation initialRotation ws of
             Inl e \<Rightarrow> Inl e
           | Inr factors \<Rightarrow>
               (case getCurveTurnFactors initialTranslation initialRotation ws factors
                       (wallLength env / 2 * 0.5 * pi) of
                  Inl e \<Rightarrow> Inl e
                | Inr turnFactors \<Rightarrow>
                    Inr (bodyOk \<and> wheelsOk \<and> sensorsOk,
                         m1\<lparr>initialBodyPolygon := body,
                            wheels := ws,
                            sensors := ss,
                            wheelSpeedAdjustmentFactors := factors,
                            curveTurnFactors := turnFactors,
                            initialCollisionPolygon :=
                              convexHull env
                                (body # map (\<lambda>(name, wheel). wheelInitialPolygon wheel) ws
                                   @ map (\<lambda>(name, sensor). sensorInitialPolygon sensor) ss),
                            initialCenterOfMassPolygon :=
                              createCirclePolygon env initialTranslation 0.005 8\<rparr>)))"

subsection \<open>Auxiliary notions for the wheel-speed theorems\<close>

definition withinMax :: "(string \<Rightarrow> Wheel \<Rightarrow> real) \<Rightarrow> (string \<times> Wheel) list \<Rightarrow> bool" where
  "withinMax g ws = (\<forall>(name, wheel) \<in> set ws. \<bar>g name wheel\<bar> \<le> getMaxAngularVelocityMagnitude wheel)"

text \<open>The totals of the curve-turn computation, stated directly as sums over the wheels.\<close>

definition drivenRates :: "Cartesian \<Rightarrow> real \<Rightarrow> Wheel \<Rightarrow> real \<Rightarrow> real \<times> real" where
  "drivenRates initialTranslation initialRotation wheel adjustmentFactor =
     getRatesOfChange initialTranslation initialRotation
       (wheelInitialPosition wheel) (wheelInitialDirection wheel)
       (getMaxAngularVelocityMagnitude wheel * getRadius wheel * adjustmentFactor)"

definition totalForwardRate ::
  "Cartesian \<Rightarrow> real \<Rightarrow> (string \<times> Wheel) list \<Rightarrow> (string \<times> real \<times> real) list \<Rightarrow> real" where
  "totalForwardRate initialTranslation initialRotation ws factors =
     sum_list (map (\<lambda>(name, wheel).
        fst (drivenRates initialTranslation initialRotation wheel (fst (the (map_of factors name)))) +
        fst (drivenRates initialTranslation initialRotation wheel (snd (the (map_of factors name))))) ws)"

definition totalRadialRate ::
  "Cartesian \<Rightarrow> real \<Rightarrow> (string \<times> Wheel) list \<Rightarrow> (string \<times> real \<times> real) list \<Rightarrow> real" where
  "totalRadialRate initialTranslation initialRotation ws factors =
     sum_list (map (\<lambda>(name, wheel).
        snd (drivenRates initialTranslation initialRotation wheel (fst (the (map_of factors name)))) +
        snd (drivenRates initialTranslation initialRotation wheel (snd (the (map_of factors name))))) ws)"

section \<open>Maze files\<close>

subsection \<open>Text helpers\<close>

text \<open>
  A maze file is what the file system holds at the path: nothing that is a file, a file that
  cannot be opened, or a file with its contents.
\<close>

datatype MazeFile = NotAFile | Unopenable | Contents string

text \<open>
  \<^verbatim>\<open>std::getline\<close> in a loop: a line ends at a newline or at the end of the text, and a
  newline that ends the text does not start another line.
\<close>

fun getlines :: "string \<Rightarrow> string list" where
  "getlines [] = []"
| "getlines (c # cs) =
     (if c = CHR 0x0A then [] # getlines cs
      else (case getlines cs of [] \<Rightarrow> [ [c] ] | line # rest \<Rightarrow> (c # line) # rest))"

text \<open>
  Modelled from the spec: \<^verbatim>\<open>SimUtilities::tokenize\<close>, \<^verbatim>\<open>SimUtilities::isInt\<close> and \<^verbatim>\<open>SimUtilities::strToInt\<close>,
  which are not part of the sources. Tokens are separated by one or more spaces or tabs (or by
  the given delimiter), there are no empty tokens, and an integer is a non-empty run of
  decimal digits with an optional minus sign in front.
\<close>

fun tokenizeFrom :: "(char \<Rightarrow> bool) \<Rightarrow> string \<Rightarrow> string \<Rightarrow> string list" where
  "tokenizeFrom delimiter word [] = (if word = [] then [] else [word])"
| "tokenizeFrom delimiter word (c # cs) =
     (if delimiter c
      then (if word = [] then tokenizeFrom delimiter [] cs
            else word # tokenizeFrom delimiter [] cs)
      else tokenizeFrom delimiter (word @ [c]) cs)"

definition isWhitespace :: "char \<Rightarrow> bool" where
  "isWhitespace c = (c = CHR '' '' \<or> c = CHR 0x09)"

definition tokenize :: "string \<Rightarrow> string list" where
  "tokenize line = tokenizeFrom isWhitespace [] line"

definition tokenizeAt :: "char \<Rightarrow> string \<Rightarrow> string list" where
  "tokenizeAt delimiter line = tokenizeFrom (\<lambda>c. c = delimiter) [] line"

definition isDigit :: "char \<Rightarrow> bool" where
  "isDigit c = (48 \<le> (of_char c :: nat) \<and> (of_char c :: nat) \<le> 57)"

definition digitsToNat :: "string \<Rightarrow> nat" where
  "digitsToNat s = foldl (\<lambda>n c. 10 * n + (of_char c - 48)) 0 s"

definition isInt :: "string \<Rightarrow> bool" where
  "isInt s =
     (case s of
        [] \<Rightarrow> False
      | c # cs \<Rightarrow> if c = CHR ''-'' then cs \<noteq> [] \<and> list_all isDigit cs else list_all isDigit s)"

definition strToInt :: "string \<Rightarrow> int" where
  "strToInt s =
     (case s of
        [] \<Rightarrow> 0
      | c # cs \<Rightarrow> if c = CHR ''-'' then - int (digitsToNat cs) else int (digitsToNat s))"

text \<open>The decimal digits that \<^verbatim>\<open>operator<<\<close> writes for a non-negative \<^verbatim>\<open>int\<close>.\<close>

fun showNat :: "nat \<Rightarrow> string" where
  "showNat n =
     (if n < 10 then [char_of (48 + n)]
      else showNat (n div 10) @ [char_of (48 + n mod 10)])"

declare showNat.simps [simp del]

subsection \<open>Tiles\<close>

text \<open>
  \<^verbatim>\<open>BasicTile\<close> holds a \<^verbatim>\<open>std::map<Direction, bool>\<close>; \<^verbatim>\<open>insert\<close> on a \<^verbatim>\<open>std::map\<close> keeps the entry
  of a key that is already there.
\<close>

record BasicTile =
  walls :: "Direction \<rightharpoonup> bool"

type_synonym Maze = "BasicTile list list"

definition insertWall :: "Direction \<Rightarrow> bool \<Rightarrow> BasicTile \<Rightarrow> BasicTile" where
  "insertWall direction isWall tile =
     (case walls tile direction of
        None \<Rightarrow> tile\<lparr>walls := (walls tile)(direction \<mapsto> isWall)\<rparr>
      | Some present \<Rightarrow> tile)"

definition emptyTile :: BasicTile where
  "emptyTile = \<lparr>walls = Map.empty\<rparr>"

text \<open>
  Modelled from the spec: the list \<^verbatim>\<open>DIRECTIONS\<close> and \<^verbatim>\<open>SimUtilities::getDirectionIndex\<close>, which are not
  part of the sources: the fixed order of the four walls is north, east, south, west.
\<close>

definition DIRECTIONS :: "Direction list" where
  "DIRECTIONS = [NORTH, EAST, SOUTH, WEST]"

fun getDirectionIndex :: "Direction \<Rightarrow> nat" where
  "getDirectionIndex NORTH = 0"
| "getDirectionIndex EAST = 1"
| "getDirectionIndex SOUTH = 2"
| "getDirectionIndex WEST = 3"

subsection \<open>MazeFileUtilities::isMazeFileNumType\<close>

text \<open>
  The function returns \<^verbatim>\<open>true\<close>, here \<open>Inr ()\<close>, or logs one warning and returns \<^verbatim>\<open>false\<close>, here
  \<open>Inl\<close> of that warning with the values the message is filled with. Line numbers and
  positions count from 1, as the messages print them.
\<close>

datatype warning =
    IsNotAFile
  | CouldNotOpen
  | IsEmpty
  | NotSixEntries nat nat
  | NonNumericEntry string nat nat
  | UnexpectedXY int int nat
  | InvalidWallValue int nat nat

text \<open>The first token that is not an integer, with its index: the loop over the tokens.\<close>

fun firstNonNumeric :: "string list \<Rightarrow> nat \<Rightarrow> (string \<times> nat) option" where
  "firstNonNumeric [] i = None"
| "firstNonNumeric (token # rest) i =
     (if \<not> isInt token then Some (token, i) else firstNonNumeric rest (i + 1))"

text \<open>
  The first wall value that is neither 0 nor 1, with its index \<open>i\<close>: the loop over the walls,
  which runs through the indices 0, 1, 2 and 3.
\<close>

fun firstInvalidWall :: "int list \<Rightarrow> nat list \<Rightarrow> (int \<times> nat) option" where
  "firstInvalidWall vs [] = None"
| "firstInvalidWall vs (i # rest) =
     (let v = vs ! (2 + i)
      in if \<not> (v = 0 \<or> v = 1) then Some (v, i) else firstInvalidWall vs rest)"

text \<open>
  One iteration of the loop over the lines: the line number is the already incremented one,
  and the result is the next pair of expected values. The values are read after the line is
  known to have six tokens, so every index is in range.
\<close>

definition checkLine :: "string \<Rightarrow> nat \<Rightarrow> int \<Rightarrow> int \<Rightarrow> warning + int \<times> int" where
  "checkLine line lineNum expectedX expectedY =
     (let tokens = tokenize line
      in if 6 \<noteq> length tokens then Inl (NotSixEntries lineNum (length tokens))
         else
           case firstNonNumeric tokens 0 of
             Some (token, i) \<Rightarrow> Inl (NonNumericEntry token lineNum (i + 1))
           | None \<Rightarrow>
               let values = map strToInt tokens;
                   caseOne = (values ! 0 = expectedX \<and> values ! 1 = expectedY);
                   caseTwo = (values ! 0 = expectedX + 1 \<and> values ! 1 = 0 \<and> expectedY \<noteq> 0)
               in if \<not> caseOne \<and> \<not> caseTwo
                  then Inl (UnexpectedXY (values ! 0) (values ! 1) lineNum)
                  else
                    case firstInvalidWall values [0, 1, 2, 3] of
                      Some (v, i) \<Rightarrow> Inl (InvalidWallValue v (2 + i + 1) lineNum)
                    | None \<Rightarrow>
                        if caseOne then Inr (expectedX, expectedY + 1)
                        else Inr (expectedX + 1, 1))"

fun checkLines :: "string list \<Rightarrow> nat \<Rightarrow> int \<Rightarrow> int \<Rightarrow> warning + unit" where
  "checkLines [] lineNum expectedX expectedY = Inr ()"
| "checkLines (line # rest) lineNum expectedX expectedY =
     (case checkLine line (lineNum + 1) expectedX expectedY of
        Inl w \<Rightarrow> Inl w
      | Inr (expectedX', expectedY') \<Rightarrow> checkLines rest (lineNum + 1) expectedX' expectedY')"

definition isMazeFileNumType :: "MazeFile \<Rightarrow> warning + unit" where
  "isMazeFileNumType mazeFile =
     (case mazeFile of
        NotAFile \<Rightarrow> Inl IsNotAFile
      | Unopenable \<Rightarrow> Inl CouldNotOpen
      | Contents text \<Rightarrow>
          if text = [] then Inl IsEmpty else checkLines (getlines text) 0 0 0)"

definition isMazeFileBinType :: "MazeFile \<Rightarrow> bool" where
  "isMazeFileBinType mazeFile = False"

definition isMazeFileMapType :: "MazeFile \<Rightarrow> bool" where
  "isMazeFileMapType mazeFile = False"

definition isMazeFile :: "MazeFile \<Rightarrow> bool" where
  "isMazeFile mazeFile =
     (isMazeFileBinType mazeFile \<or> isMazeFileMapType mazeFile \<or>
      isMazeFileNumType mazeFile = Inr ())"

subsection \<open>MazeFileUtilities::saveMazeFileNumType\<close>

text \<open>
  The walls of one tile as the writer emits them: for every direction of \<^verbatim>\<open>DIRECTIONS\<close>, a
  space and then 1 or 0. \<^verbatim>\<open>walls.at(direction)\<close> throws when the tile has no entry for the
  direction.
\<close>

fun wallEntries :: "BasicTile \<Rightarrow> Direction list \<Rightarrow> failure + string" where
  "wallEntries tile [] = Inr []"
| "wallEntries tile (direction # rest) =
     (case walls tile direction of
        None \<Rightarrow> Inl OutOfRange
      | Some isWall \<Rightarrow>
          (case wallEntries tile rest of
             Inl e \<Rightarrow> Inl e
           | Inr entries \<Rightarrow> Inr (CHR '' '' # (if isWall then CHR ''1'' else CHR ''0'') # entries)))"

text \<open>The inner loop over \<open>y\<close> and the outer loop over \<open>x\<close>, each with its running index.\<close>

fun saveColumn :: "nat \<Rightarrow> nat \<Rightarrow> BasicTile list \<Rightarrow> failure + string" where
  "saveColumn x y [] = Inr []"
| "saveColumn x y (tile # rest) =
     (case wallEntries tile DIRECTIONS of
        Inl e \<Rightarrow> Inl e
      | Inr entries \<Rightarrow>
          (case saveColumn x (y + 1) rest of
             Inl e \<Rightarrow> Inl e
           | Inr text \<Rightarrow>
               Inr (showNat x @ '' '' @ showNat y @ entries @ [CHR 0x0A] @ text)))"

fun saveColumns :: "nat \<Rightarrow> Maze \<Rightarrow> failure + string" where
  "saveColumns x [] = Inr []"
| "saveColumns x (column # rest) =
     (case saveColumn x 0 column of
        Inl e \<Rightarrow> Inl e
      | Inr text \<Rightarrow>
          (case saveColumns (x + 1) rest of
             Inl e \<Rightarrow> Inl e
           | Inr text' \<Rightarrow> Inr (text @ text')))"

text \<open>
  The second argument tells whether the output stream could be opened. The result is the
  text written to the file, or \<open>None\<close> when the function returns after the warning without
  writing. The loop counters are \<^verbatim>\<open>int\<close>; the model counts with natural numbers, which is the
  same for a maze of fewer than \<open>2 ^ 31\<close> columns and rows.
\<close>

definition saveMazeFileNumType :: "Maze \<Rightarrow> bool \<Rightarrow> failure + string option" where
  "saveMazeFileNumType maze isOpen =
     (if \<not> isOpen then Inr None
      else case saveColumns 0 maze of
             Inl e \<Rightarrow> Inl e
           | Inr text \<Rightarrow> Inr (Some text))"

subsection \<open>MazeFileUtilities::loadMazeFileNumType\<close>

text \<open>The tile that the loader fills from the tokens of a line, one \<^verbatim>\<open>insert\<close> per direction.\<close>

definition tileOfTokens :: "string list \<Rightarrow> BasicTile" where
  "tileOfTokens tokens =
     foldl (\<lambda>tile direction.
              insertWall direction
                (1 = strToInt (tokens ! (2 + getDirectionIndex direction))) tile)
       emptyTile DIRECTIONS"

text \<open>
  The loop over the lines, with the maze and the column built so far, and the final append
  of the last column. The loader runs only on a file that has passed
  \<^verbatim>\<open>isMazeFileNumType\<close>, so every line has six tokens and a non-negative first value, and the
  comparison of \<^verbatim>\<open>maze.size()\<close> with that value is a comparison of non-negative numbers.
\<close>

fun loadLines :: "string list \<Rightarrow> Maze \<Rightarrow> BasicTile list \<Rightarrow> Maze" where
  "loadLines [] maze column = maze @ [column]"
| "loadLines (line # rest) maze column =
     (let tokens = tokenize line;
          tile = tileOfTokens tokens
      in if int (length maze) < strToInt (tokens ! 0)
         then loadLines rest (maze @ [column]) [tile]
         else loadLines rest maze (column @ [tile]))"

definition loadMazeFileNumType :: "MazeFile \<Rightarrow> failure + Maze" where
  "loadMazeFileNumType mazeFile =
     (if isMazeFileNumType mazeFile \<noteq> Inr () then Inl AssertionFailed
      else case mazeFile of
             Contents text \<Rightarrow> Inr (loadLines (getlines text) [] [])
           | _ \<Rightarrow> Inl AssertionFailed)"

subsection \<open>MazeFileUtilities::loadMazeFileMapType\<close>

text \<open>
  Updating one tile of the grid in place: \<^verbatim>\<open>upsideDownMaze.at(i).at(j)\<close> throws when either index
  is out of range.
\<close>

definition updateTile :: "nat \<Rightarrow> nat \<Rightarrow> (BasicTile \<Rightarrow> BasicTile) \<Rightarrow> Maze \<Rightarrow> failure + Maze" where
  "updateTile i j f maze =
     (if i < length maze \<and> j < length (maze ! i)
      then Inr (maze[i := (maze ! i)[j := f (maze ! i ! j)] ])
      else Inl OutOfRange)"

text \<open>
  The loop over a line of horizontal walls, \<open>j = 2, 6, 10, \<dots>\<close>: a new tile is appended to
  column \<open>(j - 2) / 4\<close> with its north wall, and the tile above it, if there is a row above,
  gets the same value as its south wall.
\<close>

fun horizontalWalls :: "string \<Rightarrow> nat \<Rightarrow> nat list \<Rightarrow> Maze \<Rightarrow> failure + Maze" where
  "horizontalWalls line rowsFromTop [] maze = Inr maze"
| "horizontalWalls line rowsFromTop (j # rest) maze =
     (let isWall = (line ! j \<noteq> CHR '' '');
          tile = insertWall NORTH isWall emptyTile;
          i = (j - 2) div 4
      in if \<not> i < length maze then Inl OutOfRange
         else
           let maze1 = maze[i := maze ! i @ [tile] ]
           in if 0 < rowsFromTop
              then (case updateTile i (rowsFromTop - 1) (insertWall SOUTH isWall) maze1 of
                      Inl e \<Rightarrow> Inl e
                    | Inr maze2 \<Rightarrow> horizontalWalls line rowsFromTop rest maze2)
              else horizontalWalls line rowsFromTop rest maze1)"

text \<open>
  The loop over a line of vertical walls, \<open>j = 0, 4, 8, \<dots>\<close>: the value is the east wall of
  the tile to the left, if any, and the west wall of the tile to the right unless \<open>j\<close> is the
  last position of the line.
\<close>

fun verticalWalls :: "string \<Rightarrow> nat \<Rightarrow> nat list \<Rightarrow> Maze \<Rightarrow> failure + Maze" where
  "verticalWalls line rowsFromTop [] maze = Inr maze"
| "verticalWalls line rowsFromTop (j # rest) maze =
     (let isWall = (line ! j \<noteq> CHR '' '')
      in case (if 0 < j then updateTile ((j - 4) div 4) rowsFromTop (insertWall EAST isWall) maze
               else Inr maze) of
           Inl e \<Rightarrow> Inl e
         | Inr maze1 \<Rightarrow>
             (case (if j < length line - 1
                    then updateTile (j div 4) rowsFromTop (insertWall WEST isWall) maze1
                    else Inr maze1) of
                Inl e \<Rightarrow> Inl e
              | Inr maze2 \<Rightarrow> verticalWalls line rowsFromTop rest maze2))"

text \<open>
  The loop over the lines of the map, with the grid read so far (top row first) and the
  number of complete rows. The indices \<open>j\<close> of either inner loop are all below the length of
  the line.
\<close>

fun readMapLines :: "string list \<Rightarrow> Maze \<Rightarrow> nat \<Rightarrow> failure + Maze" where
  "readMapLines [] maze rowsFromTop = Inr maze"
| "readMapLines (line # rest) maze rowsFromTop =
     (let tokens = tokenizeAt (CHR ''+'') line;
          maze0 = (if maze = [] then replicate (length tokens) [] else maze)
      in if length tokens = length maze0
         then (case horizontalWalls line rowsFromTop
                      (filter (\<lambda>j. j mod 4 = 2) [0..<length line]) maze0 of
                 Inl e \<Rightarrow> Inl e
               | Inr maze1 \<Rightarrow> readMapLines rest maze1 rowsFromTop)
         else (case verticalWalls line rowsFromTop
                      (filter (\<lambda>j. j mod 4 = 0) [0..<length line]) maze0 of
                 Inl e \<Rightarrow> Inl e
               | Inr maze1 \<Rightarrow> readMapLines rest maze1 (rowsFromTop + 1)))"

text \<open>
  Stripping the last row: \<^verbatim>\<open>pop_back\<close> on every column. On an empty column the source has
  no defined behaviour; the model reports it as out of range.
\<close>

fun stripLastRow :: "Maze \<Rightarrow> failure + Maze" where
  "stripLastRow [] = Inr []"
| "stripLastRow (column # rest) =
     (if column = [] then Inl OutOfRange
      else case stripLastRow rest of
             Inl e \<Rightarrow> Inl e
           | Inr rest' \<Rightarrow> Inr (butlast column # rest'))"

text \<open>
  The flip at the end: every column is copied from its last tile down to its first. The
  counter \<open>j\<close> of the source runs from \<open>size - 1\<close> down to 0.
\<close>

fun flipColumn :: "BasicTile list \<Rightarrow> nat \<Rightarrow> BasicTile list" where
  "flipColumn column 0 = []"
| "flipColumn column (Suc j) = column ! j # flipColumn column j"

definition flipMaze :: "Maze \<Rightarrow> Maze" where
  "flipMaze upsideDownMaze = map (\<lambda>column. flipColumn column (length column)) upsideDownMaze"

text \<open>What \<^verbatim>\<open>loadMazeFileMapType\<close> does once its opening assertion has passed.\<close>

definition readMapFile :: "string \<Rightarrow> failure + Maze" where
  "readMapFile text =
     (case readMapLines (getlines text) [] 0 of
        Inl e \<Rightarrow> Inl e
      | Inr upsideDownMaze \<Rightarrow>
          (case stripLastRow upsideDownMaze of
             Inl e \<Rightarrow> Inl e
           | Inr stripped \<Rightarrow> Inr (flipMaze stripped)))"

definition loadMazeFileMapType :: "MazeFile \<Rightarrow> failure + Maze" where
  "loadMazeFileMapType mazeFile =
     (if \<not> isMazeFileMapType mazeFile then Inl AssertionFailed
      else case mazeFile of
             Contents text \<Rightarrow> readMapFile text
           | _ \<Rightarrow> readMapFile [])"

definition loadMazeFileBinType :: "MazeFile \<Rightarrow> failure + Maze" where
  "loadMazeFileBinType mazeFile = Inl AssertionFailed"

subsection \<open>MazeFileUtilities::loadMaze\<close>

definition loadMaze :: "MazeFile \<Rightarrow> failure + Maze" where
  "loadMaze mazeFile =
     (if isMazeFileBinType mazeFile then loadMazeFileBinType mazeFile
      else if isMazeFileMapType mazeFile then loadMazeFileMapType mazeFile
      else if isMazeFileNumType mazeFile = Inr () then loadMazeFileNumType mazeFile
      else Inl AssertionFailed)"

subsection \<open>What a line of a numeric maze file says\<close>

text \<open>
  The coordinates and the tile that a line of six integers describes, and the well-formed
  lines: six tokens, all integers, the last four 0 or 1.
\<close>

definition lineX :: "string \<Rightarrow> int" where
  "lineX line = strToInt (tokenize line ! 0)"

definition lineY :: "string \<Rightarrow> int" where
  "lineY line = strToInt (tokenize line ! 1)"

definition lineTile :: "string \<Rightarrow> BasicTile" where
  "lineTile line =
     \<lparr>walls = [NORTH \<mapsto> strToInt (tokenize line ! 2) = 1,
               EAST \<mapsto> strToInt (tokenize line ! 3) = 1,
               SOUTH \<mapsto> strToInt (tokenize line ! 4) = 1,
               WEST \<mapsto> strToInt (tokenize line ! 5) = 1]\<rparr>"

definition sixIntegers :: "string \<Rightarrow> bool" where
  "sixIntegers line = (length (tokenize line) = 6 \<and> list_all isInt (tokenize line))"

definition binaryWalls :: "string \<Rightarrow> bool" where
  "binaryWalls line =
     list_all (\<lambda>i. strToInt (tokenize line ! i) = 0 \<or> strToInt (tokenize line ! i) = 1)
       [2, 3, 4, 5]"

text \<open>
  The ordering and uniqueness rules of the numeric form, in the words of the spec: the first
  record is \<open>(0, 0)\<close>; from one record to the next, \<open>x\<close> never decreases and grows by at most
  1; within a column \<open>y\<close> never decreases and grows by at most 1, and the first record of a
  new column has \<open>y = 0\<close>; no pair \<open>(x, y)\<close> occurs twice.
\<close>

fun stepOk :: "int \<times> int \<Rightarrow> int \<times> int \<Rightarrow> bool" where
  "stepOk (x, y) (x', y') =
     (x \<le> x' \<and> x' \<le> x + 1 \<and> (if x' = x then y \<le> y' \<and> y' \<le> y + 1 else y' = 0))"

fun adjacentOk :: "(int \<times> int) list \<Rightarrow> bool" where
  "adjacentOk (a # b # cs) = (stepOk a b \<and> adjacentOk (b # cs))"
| "adjacentOk cs = True"

definition coordinatesWellOrdered :: "(int \<times> int) list \<Rightarrow> bool" where
  "coordinatesWellOrdered cs =
     ((case cs of [] \<Rightarrow> True | c # rest \<Rightarrow> c = (0, 0)) \<and> adjacentOk cs \<and> distinct cs)"

definition coordinates :: "string list \<Rightarrow> (int \<times> int) list" where
  "coordinates ls = map (\<lambda>line. (lineX line, lineY line)) ls"

text \<open>
  The coordinate sequences that the validation loop lets through from a given pair of
  expected values, and the lexicographic order on coordinates.
\<close>

fun accepted :: "int \<Rightarrow> int \<Rightarrow> (int \<times> int) list \<Rightarrow> bool" where
  "accepted expectedX expectedY [] = True"
| "accepted expectedX expectedY ((x, y) # cs) =
     (((x = expectedX \<and> y = expectedY) \<or> (x = expectedX + 1 \<and> y = 0 \<and> expectedY \<noteq> 0)) \<and>
      accepted x (y + 1) cs)"

fun lexLess :: "int \<times> int \<Rightarrow> int \<times> int \<Rightarrow> bool" where
  "lexLess (x, y) (x', y') = (x < x' \<or> (x = x' \<and> y < y'))"

text \<open>
  A grid extends a maze and a current column when the maze is its first columns and the
  current column is the beginning of the column that follows them.
\<close>

definition extends :: "Maze \<Rightarrow> Maze \<Rightarrow> BasicTile list \<Rightarrow> bool" where
  "extends result maze column =
     (length maze < length result \<and> take (length maze) result = maze \<and>
      length column \<le> length (result ! length maze) \<and>
      take (length column) (result ! length maze) = column)"

text \<open>
  Wall symmetry as the spec states it: a tile and its neighbour to the east agree on the wall
  between them, and so do a tile and its neighbour to the north.
\<close>

definition wallsAgree :: "Maze \<Rightarrow> bool" where
  "wallsAgree maze =
     list_all (\<lambda>x.
       list_all (\<lambda>y.
         (if Suc x < length maze \<and> y < length (maze ! Suc x)
          then walls (maze ! x ! y) EAST = walls (maze ! Suc x ! y) WEST else True) \<and>
         (if Suc y < length (maze ! x)
          then walls (maze ! x ! y) NORTH = walls (maze ! x ! Suc y) SOUTH else True))
         [0..<length (maze ! x)])
       [0..<length maze]"

text \<open>
  The numeric form as the spec describes what the writer emits: one line per tile, the
  columns in order and each column from \<open>y = 0\<close> upwards, a line being \<open>x\<close>, \<open>y\<close> and the four
  walls in the order north, east, south, west, separated by single spaces.
\<close>

definition wallDigit :: "BasicTile \<Rightarrow> Direction \<Rightarrow> char" where
  "wallDigit tile direction = (if walls tile direction = Some True then CHR ''1'' else CHR ''0'')"

definition writtenLine :: "nat \<Rightarrow> nat \<Rightarrow> BasicTile \<Rightarrow> string" where
  "writtenLine x y tile =
     showNat x @ '' '' @ showNat y @ '' '' @ [wallDigit tile NORTH] @ '' '' @
     [wallDigit tile EAST] @ '' '' @ [wallDigit tile SOUTH] @ '' '' @ [wallDigit tile WEST]"

fun columnLines :: "nat \<Rightarrow> nat \<Rightarrow> BasicTile list \<Rightarrow> string list" where
  "columnLines x y [] = []"
| "columnLines x y (tile # rest) = writtenLine x y tile # columnLines x (Suc y) rest"

fun mazeLines :: "nat \<Rightarrow> Maze \<Rightarrow> string list" where
  "mazeLines x [] = []"
| "mazeLines x (column # rest) = columnLines x 0 column @ mazeLines (Suc x) rest"

definition fileText :: "string list \<Rightarrow> string" where
  "fileText ls = concat (map (\<lambda>line. line @ [CHR 0x0A]) ls)"

text \<open>
  A rectangular maze has at least one column and all its columns have the same positive
  height; a well-formed maze has a wall value for each of the four directions of every tile.
\<close>

definition rectangular :: "Maze \<Rightarrow> bool" where
  "rectangular maze =
     (case maze of
        [] \<Rightarrow> False
      | column # rest \<Rightarrow> column \<noteq> [] \<and> list_all (\<lambda>c. length c = length column) rest)"

definition wellFormedTile :: "BasicTile \<Rightarrow> bool" where
  "wellFormedTile tile = list_all (\<lambda>direction. walls tile direction \<noteq> None) [NORTH, EAST, SOUTH, WEST]"

definition wellFormed :: "Maze \<Rightarrow> bool" where
  "wellFormed maze = list_all (list_all wellFormedTile) maze"

text \<open>
  The writer counts columns and rows with an \<^verbatim>\<open>int\<close>: a maze fits when it has fewer than
  \<open>2 ^ 31\<close> columns and every column fewer than \<open>2 ^ 31\<close> tiles.
\<close>

definition fitsInt :: "Maze \<Rightarrow> bool" where
  "fitsInt maze = (length maze < 2 ^ 31 \<and> list_all (\<lambda>column. length column < 2 ^ 31) maze)"

section \<open>Example inputs\<close>

text \<open>
  A differential-drive mouse heading east with its centre at the origin: the left wheel one
  metre to the north of the centre, the right wheel one metre to the south, both rolling
  east, of radius one metre and maximum angular velocity 10 rad/s. The left wheel is at rest
  and the right wheel turns at \<open>2 * pi\<close> rad/s. It has no sensors.
\<close>

definition exampleWheel :: "real \<Rightarrow> real \<Rightarrow> Wheel" where
  "exampleWheel y speed =
     \<lparr>wheelInitialPosition = \<lparr>getX = 0, getY = y\<rparr>,
      wheelInitialDirection = 0,
      getRadius = 1,
      getMaxAngularVelocityMagnitude = 10,
      getAngularVelocity = speed,
      wheelRotation = 0,
      wheelInitialPolygon = [\<lparr>getX = 0, getY = y\<rparr>],
      getSpeedIndicatorPolygon = []\<rparr>"

definition exampleMouse :: Mouse where
  "exampleMouse =
     \<lparr>getInitialTranslation = \<lparr>getX = 0, getY = 0\<rparr>,
      getInitialRotation = 0,
      getCurrentTranslation = \<lparr>getX = 0, getY = 0\<rparr>,
      getCurrentRotation = 0,
      currentGyro = 0,
      elapsedSimTime = 0,
      initialBodyPolygon = [],
      initialCollisionPolygon = [],
      initialCenterOfMassPolygon = [],
      wheels = [(''left'', exampleWheel 1 0), (''right'', exampleWheel (- 1) (2 * pi))],
      sensors = [],
      wheelSpeedAdjustmentFactors = [(''left'', 1, - 1), (''right'', 1, 1)],
      curveTurnFactors = (1, 1)\<rparr>"

text \<open>A sensor reading that is left as it is, for a mouse without sensors.\<close>

definition keepReading :: "Cartesian \<Rightarrow> real \<Rightarrow> Sensor \<Rightarrow> Sensor" where
  "keepReading position direction sensor = sensor"

text \<open>
  Collaborators for \<^verbatim>\<open>Mouse::initialize\<close>: walls two metres long and of no width, and a parser
  that places the two wheels of the differential drive one metre to the north and to the
  south of the initial translation, at rest.
\<close>

definition exampleWheelAt :: "Cartesian \<Rightarrow> Wheel" where
  "exampleWheelAt position =
     (exampleWheel 0 0)\<lparr>wheelInitialPosition := position, wheelInitialPolygon := [position]\<rparr>"

definition exampleCollaborators :: Collaborators where
  "exampleCollaborators =
     \<lparr>wallLength = 2,
      wallWidth = 0,
      parserSuccess = True,
      getBody = (\<lambda>position rotation. ([], True)),
      getWheels = (\<lambda>position rotation.
         ([(''left'', exampleWheelAt \<lparr>getX = getX position, getY = getY position + 1\<rparr>),
           (''right'', exampleWheelAt \<lparr>getX = getX position, getY = getY position - 1\<rparr>)],
          True)),
      getSensors = (\<lambda>position rotation. ([], True)),
      convexHull = concat,
      createCirclePolygon = (\<lambda>centre radius n. [centre])\<rparr>"

definition exampleInitialized :: Mouse where
  "exampleInitialized =
     \<lparr>getInitialTranslation = \<lparr>getX = 1, getY = 1\<rparr>,
      getInitialRotation = 0,
      getCurrentTranslation = \<lparr>getX = 1, getY = 1\<rparr>,
      getCurrentRotation = 0,
      currentGyro = 0,
      elapsedSimTime = 0,
      initialBodyPolygon = [],
      initialCollisionPolygon = [\<lparr>getX = 1, getY = 2\<rparr>, \<lparr>getX = 1, getY = 0\<rparr>],
      initialCenterOfMassPolygon = [\<lparr>getX = 1, getY = 1\<rparr>],
      wheels = [(''left'', exampleWheelAt \<lparr>getX = 1, getY = 2\<rparr>),
                (''right'', exampleWheelAt \<lparr>getX = 1, getY = 0\<rparr>)],
      sensors = [],
      wheelSpeedAdjustmentFactors = [(''left'', 1, - 1), (''right'', 1, 1)],
      curveTurnFactors = (1, 1)\<rparr>"

text \<open>
  The example mouse after a request to move forward at full speed, after a request for an
  even mix of forward and left turn at half speed, and after stopping all wheels.
\<close>

definition exampleForward :: Mouse where
  "exampleForward =
     exampleMouse\<lparr>wheels := [(''left'', exampleWheel 1 10), (''right'', exampleWheel (- 1) 10)]\<rparr>"


definition exampleStopped :: Mouse where
  "exampleStopped =
     exampleMouse\<lparr>wheels := [(''left'', exampleWheel 1 0), (''right'', exampleWheel (- 1) 0)]\<rparr>"

text \<open>
  Maze files in the numeric form: the two-by-two maze of the spec's scenario S1, a file whose
  first two lines both carry \<open>X = 0\<close> and \<open>Y = 0\<close>, and a file of two columns of one tile
  whose lines disagree about the wall between the two tiles.
\<close>

definition scenarioS1 :: string where
  "scenarioS1 =
     ''0 0 1 0 0 1'' @ [CHR 0x0A] @ ''0 1 1 1 0 0'' @ [CHR 0x0A] @
     ''1 0 0 0 1 1'' @ [CHR 0x0A] @ ''1 1 0 1 1 0'' @ [CHR 0x0A]"

definition duplicateFile :: string where
  "duplicateFile = ''0 0 1 0 0 1'' @ [CHR 0x0A] @ ''0 0 1 1 0 0'' @ [CHR 0x0A]"

definition lopsidedFile :: string where
  "lopsidedFile = ''0 0 0 1 0 0'' @ [CHR 0x0A] @ ''1 0 0 0 0 0'' @ [CHR 0x0A]"

text \<open>The mazes that the files \<open>scenarioS1\<close> and \<open>lopsidedFile\<close> describe.\<close>

definition wallsTile :: "bool \<Rightarrow> bool \<Rightarrow> bool \<Rightarrow> bool \<Rightarrow> BasicTile" where
  "wallsTile n e s w = \<lparr>walls = [NORTH \<mapsto> n, EAST \<mapsto> e, SOUTH \<mapsto> s, WEST \<mapsto> w]\<rparr>"

definition scenarioMaze :: Maze where
  "scenarioMaze =
     [ [wallsTile True False False True, wallsTile True True False False],
      [wallsTile False False True True, wallsTile False True True False] ]"

definition lopsidedMaze :: Maze where
  "lopsidedMaze = [ [wallsTile False True False False], [wallsTile False False False False] ]"

text \<open>
  A maze file in the map form, two tiles wide and two tiles high, and the table of the wall
  values of a grid, every tile in the order north, east, south, west.
\<close>

definition exampleMap :: string where
  "exampleMap =
     ''+---+---+'' @ [CHR 0x0A] @
     ''|       |'' @ [CHR 0x0A] @
     ''+   +---+'' @ [CHR 0x0A] @
     ''|   |   |'' @ [CHR 0x0A] @
     ''+---+---+'' @ [CHR 0x0A]"

definition wallTable :: "Maze \<Rightarrow> bool option list list list" where
  "wallTable maze = map (map (\<lambda>tile. map (walls tile) [NORTH, EAST, SOUTH, WEST])) maze"

section \<open>The kinematic integrator\<close>

subsection \<open>The running sums of the update loop\<close>

lemma updateLoop_sums:
  "updateLoop m ws (a, b, c) =
     (a + sum_list (map (\<lambda>(name, wheel). fst (wheelRates m wheel)) ws) * cos (getCurrentRotation m),
      b + sum_list (map (\<lambda>(name, wheel). fst (wheelRates m wheel)) ws) * sin (getCurrentRotation m),
      c + sum_list (map (\<lambda>(name, wheel). snd (wheelRates m wheel)) ws))"
proof (induction ws arbitrary: a b c)
  case Nil
  show ?case by simp
next
  case (Cons p ws)
  obtain name wheel where p: "p = (name, wheel)" by (cases p)
  show ?case
    by (simp add: p Cons.IH Let_def wheelRates_def algebra_simps)
qed

lemma update_translation:
  "getCurrentTranslation (update ur e m) =
     cartesianPlus (getCurrentTranslation m)
       \<lparr>getX = averageForwardRate m * cos (getCurrentRotation m) * e,
        getY = averageForwardRate m * sin (getCurrentRotation m) * e\<rparr>"
  by (simp add: update_def updateLoop_sums averageForwardRate_def Let_def)

lemma update_rotation:
  "getCurrentRotation (update ur e m) = getCurrentRotation m + averageRadialRate m * e"
  by (simp add: update_def updateLoop_sums averageRadialRate_def Let_def)

lemma exampleWheel_north:
  "getRatesOfChange \<lparr>getX = 0, getY = 0\<rparr> 0 (wheelInitialPosition (exampleWheel 1 s))
     (wheelInitialDirection (exampleWheel 1 s)) v = (v, - v)"
  by (simp add: exampleWheel_def getRatesOfChange_def cartesianMinus_def getTheta_def
      getRho_def atan2_def Let_def)

lemma exampleWheel_south:
  "getRatesOfChange \<lparr>getX = 0, getY = 0\<rparr> 0 (wheelInitialPosition (exampleWheel (- 1) s))
     (wheelInitialDirection (exampleWheel (- 1) s)) v = (v, v)"
  by (simp add: exampleWheel_def getRatesOfChange_def cartesianMinus_def getTheta_def
      getRho_def atan2_def Let_def)

lemma exampleWheel_fields:
  "getAngularVelocity (exampleWheel y s) = s" "getRadius (exampleWheel y s) = 1"
  "getMaxAngularVelocityMagnitude (exampleWheel y s) = 10"
  by (simp_all add: exampleWheel_def)

lemma exampleMouse_fields:
  "getInitialTranslation exampleMouse = \<lparr>getX = 0, getY = 0\<rparr>"
  "getInitialRotation exampleMouse = 0"
  "getCurrentTranslation exampleMouse = \<lparr>getX = 0, getY = 0\<rparr>"
  "getCurrentRotation exampleMouse = 0"
  "wheels exampleMouse = [(''left'', exampleWheel 1 0), (''right'', exampleWheel (- 1) (2 * pi))]"
  "wheelSpeedAdjustmentFactors exampleMouse = [(''left'', 1, - 1), (''right'', 1, 1)]"
  by (simp_all add: exampleMouse_def)

lemma exampleMouse_rates:
  "averageForwardRate exampleMouse = pi" "averageRadialRate exampleMouse = pi"
  by (simp_all add: averageForwardRate_def averageRadialRate_def wheelRates_def
      exampleMouse_fields exampleWheel_north exampleWheel_south exampleWheel_fields)

lemma exampleMouse_off_centre:
  "\<forall>(name, wheel) \<in> set (wheels exampleMouse).
      getRho (cartesianMinus (getInitialTranslation exampleMouse) (wheelInitialPosition wheel)) \<noteq> 0"
  by (simp add: exampleMouse_fields exampleWheel_def cartesianMinus_def getRho_def)

subsection \<open>Rates of change of one wheel\<close>

text \<open>
  Claim C2. For a wheel that is not at the mouse's initial centre, \<^verbatim>\<open>Mouse::getRatesOfChange\<close>,
  called as \<^verbatim>\<open>Mouse::update\<close> calls it with the linear velocity \<open>v\<close> (the wheel's angular
  velocity times its radius), returns the forward rate \<open>v * cos (R0 - D)\<close> and the radial rate
  \<open>v * sin (theta u - D) / rho u\<close>, where \<open>R0\<close> is the initial rotation of the mouse, \<open>D\<close> the
  initial direction of the wheel and \<open>u\<close> the vector from the wheel's initial position to the
  mouse's initial translation.
\<close>

theorem getRatesOfChange_forward_and_radial:
  assumes "getRho (cartesianMinus (getInitialTranslation m) (wheelInitialPosition wheel)) \<noteq> 0"
  shows "getRatesOfChange (getInitialTranslation m) (getInitialRotation m)
           (wheelInitialPosition wheel) (wheelInitialDirection wheel)
           (getAngularVelocity wheel * getRadius wheel)
         = (getAngularVelocity wheel * getRadius wheel
              * cos (getInitialRotation m - wheelInitialDirection wheel),
            getAngularVelocity wheel * getRadius wheel
              * sin (getTheta (cartesianMinus (getInitialTranslation m) (wheelInitialPosition wheel))
                      - wheelInitialDirection wheel)
              / getRho (cartesianMinus (getInitialTranslation m) (wheelInitialPosition wheel)))"
  by (simp add: getRatesOfChange_def Let_def)

text \<open>
  The right wheel of the example mouse, one metre south of the centre and turning at
  \<open>2 * pi\<close> rad/s, contributes \<open>2 * pi\<close> m/s forwards and \<open>2 * pi\<close> rad/s of rotation.
\<close>

theorem getRatesOfChange_forward_and_radial_witness:
  "getRho (cartesianMinus (getInitialTranslation exampleMouse)
             (wheelInitialPosition (exampleWheel (- 1) (2 * pi)))) \<noteq> 0 \<and>
   getRatesOfChange (getInitialTranslation exampleMouse) (getInitialRotation exampleMouse)
     (wheelInitialPosition (exampleWheel (- 1) (2 * pi)))
     (wheelInitialDirection (exampleWheel (- 1) (2 * pi)))
     (getAngularVelocity (exampleWheel (- 1) (2 * pi)) * getRadius (exampleWheel (- 1) (2 * pi)))
   = (2 * pi, 2 * pi)"
proof -
  have h: "getRho (cartesianMinus (getInitialTranslation exampleMouse)
             (wheelInitialPosition (exampleWheel (- 1) (2 * pi)))) \<noteq> 0"
    by (simp add: exampleMouse_fields exampleWheel_def cartesianMinus_def getRho_def)
  show ?thesis
    using getRatesOfChange_forward_and_radial [OF h] h
    by (simp add: exampleMouse_fields exampleWheel_def cartesianMinus_def getRho_def
        getTheta_def atan2_def)
qed

subsection \<open>Which rotation the translation step uses\<close>

text \<open>
  Claim C1, as stated: the translation increment uses the cosine and sine of the rotation
  after its increment. It fails for the example mouse and one second: the mouse turns from
  heading 0 to heading \<open>pi\<close> while its centre moves by \<open>pi\<close> metres along the old heading,
  not along the new one.
\<close>

theorem update_translation_new_rotation_counterexample:
  "getCurrentTranslation (update keepReading 1 exampleMouse) \<noteq>
     cartesianPlus (getCurrentTranslation exampleMouse)
       \<lparr>getX = averageForwardRate exampleMouse
                 * cos (getCurrentRotation (update keepReading 1 exampleMouse)) * 1,
        getY = averageForwardRate exampleMouse
                 * sin (getCurrentRotation (update keepReading 1 exampleMouse)) * 1\<rparr>"
  by (simp add: update_translation update_rotation exampleMouse_rates exampleMouse_fields
      cartesianPlus_def)

text \<open>
  Claim C1, amended. For a mouse with at least one wheel, none of them at the initial centre,
  and for every elapsed duration, \<^verbatim>\<open>Mouse::update\<close> adds the averaged radial rate times the
  duration to the rotation, and adds to the translation the averaged forward rate times the
  duration along the rotation the mouse had before that increment.
\<close>

theorem update_translation_uses_rotation_before_increment:
  assumes "wheels m \<noteq> []"
    and "\<forall>(name, wheel) \<in> set (wheels m).
           getRho (cartesianMinus (getInitialTranslation m) (wheelInitialPosition wheel)) \<noteq> 0"
  shows "getCurrentRotation (update updateReading elapsed m) =
           getCurrentRotation m + averageRadialRate m * elapsed \<and>
         getCurrentTranslation (update updateReading elapsed m) =
           cartesianPlus (getCurrentTranslation m)
             \<lparr>getX = averageForwardRate m * cos (getCurrentRotation m) * elapsed,
              getY = averageForwardRate m * sin (getCurrentRotation m) * elapsed\<rparr>"
  by (simp add: update_translation update_rotation)

theorem update_translation_uses_rotation_before_increment_witness:
  "wheels exampleMouse \<noteq> [] \<and>
   getCurrentRotation (update keepReading 1 exampleMouse) = pi \<and>
   getCurrentTranslation (update keepReading 1 exampleMouse) = \<lparr>getX = pi, getY = 0\<rparr>"
proof -
  have ne: "wheels exampleMouse \<noteq> []" by (simp add: exampleMouse_fields)
  show ?thesis
    using update_translation_uses_rotation_before_increment
            [OF ne exampleMouse_off_centre, of keepReading 1] ne
    by (simp add: exampleMouse_rates exampleMouse_fields cartesianPlus_def)
qed

subsection \<open>Facts about setting wheel speeds\<close>

lemma update_append_fresh:
  "k \<notin> fst ` set xs \<Longrightarrow> AList.update k v (xs @ (k, w) # ys) = xs @ (k, v) # ys"
  by (induction xs) auto

lemma map_of_append_fresh:
  "k \<notin> fst ` set xs \<Longrightarrow> map_of (xs @ (k, w) # ys) k = Some w"
  by (induction xs) auto

lemma rpm_le: "\<bar>getRevolutionsPerMinute s\<bar> \<le> getRevolutionsPerMinute mx \<longleftrightarrow> \<bar>s\<bar> \<le> mx"
proof -
  have "\<bar>getRevolutionsPerMinute s\<bar> = \<bar>s\<bar> * (60 / (2 * pi))"
    by (simp add: getRevolutionsPerMinute_def abs_mult)
  moreover have "getRevolutionsPerMinute mx = mx * (60 / (2 * pi))"
    by (simp add: getRevolutionsPerMinute_def)
  moreover have "0 < 60 / (2 * pi)" by simp
  ultimately show ?thesis by (simp only: mult_le_cancel_right_pos)
qed

lemma setWheelSpeedsLoop_all:
  assumes "distinct (map fst (pre @ ws))"
  shows "setWheelSpeedsLoop (map (\<lambda>(name, wheel). (name, g name wheel)) ws) (pre @ ws) =
           (if withinMax g ws
            then Inr (pre @ map (\<lambda>(name, wheel). (name, setAngularVelocity (g name wheel) wheel)) ws)
            else Inl AssertionFailed)"
  using assms
proof (induction ws arbitrary: pre)
  case Nil
  show ?case by (simp add: withinMax_def)
next
  case (Cons p ws)
  obtain name wheel where p: "p = (name, wheel)" by (cases p)
  from Cons.prems have fresh: "name \<notin> fst ` set pre"
    by (auto simp: p)
  have look: "map_of (pre @ (name, wheel) # ws) name = Some wheel"
    by (rule map_of_append_fresh [OF fresh])
  have upd: "AList.update name w' (pre @ (name, wheel) # ws) = (pre @ [(name, w')]) @ ws" for w'
    using update_append_fresh [OF fresh] by simp
  have dist: "distinct (map fst ((pre @ [(name, w')]) @ ws))" for w'
    using Cons.prems by (simp add: p)
  have step: "setWheelSpeedsLoop ((name, s) # rest) (pre @ (name, wheel) # ws) =
      (if \<bar>s\<bar> \<le> getMaxAngularVelocityMagnitude wheel
       then setWheelSpeedsLoop rest ((pre @ [(name, setAngularVelocity s wheel)]) @ ws)
       else Inl AssertionFailed)" for s rest
    unfolding setWheelSpeedsLoop.simps getWheelMaxSpeed_def look upd
    by (simp add: rpm_le)
  show ?case
  proof (cases "\<bar>g name wheel\<bar> \<le> getMaxAngularVelocityMagnitude wheel")
    case True
    then show ?thesis
      unfolding p list.map prod.case step
      using Cons.IH [OF dist, of "setAngularVelocity (g name wheel) wheel"]
      by (simp add: withinMax_def)
  next
    case False
    then show ?thesis
      unfolding p list.map prod.case step
      by (simp add: withinMax_def)
  qed
qed

lemma setWheelSpeeds_all:
  assumes "distinct (map fst (wheels m))"
  shows "setWheelSpeeds (map (\<lambda>(name, wheel). (name, g name wheel)) (wheels m)) m =
           (if withinMax g (wheels m)
            then Inr (m\<lparr>wheels := map (\<lambda>(name, wheel). (name, setAngularVelocity (g name wheel) wheel)) (wheels m)\<rparr>)
            else Inl AssertionFailed)"
  using setWheelSpeedsLoop_all [of "[]" "wheels m" g] assms
  by (simp add: setWheelSpeeds_def)


text \<open>
  The two assertions on the sum of the magnitudes let only finite factors through.
\<close>

lemma finite_factors:
  assumes "lessEqDouble (Finite 0) (addDouble rounded (absDouble a) (absDouble b))"
    and "lessEqDouble (addDouble rounded (absDouble a) (absDouble b)) (Finite 1)"
  shows "\<exists>x y. a = Finite x \<and> b = Finite y"
  using assms by (cases a; cases b) simp_all

lemma setWheelSpeedsForMovement_magnitude:
  "setWheelSpeedsForMovement rounded f fw tu m = Inr m' \<Longrightarrow>
     lessEqDouble (Finite 0) (normalizedFactorMagnitude rounded fw tu) \<and>
     lessEqDouble (normalizedFactorMagnitude rounded fw tu) (Finite 1)"
  by (simp add: setWheelSpeedsForMovement_def normalizedFactorMagnitude_def Let_def
      split: if_splits)

lemma setWheelSpeedsForMovement_fails:
  "\<not> lessEqDouble (normalizedFactorMagnitude rounded fw tu) (Finite 1) \<Longrightarrow>
     setWheelSpeedsForMovement rounded f fw tu m = Inl AssertionFailed"
  by (simp add: setWheelSpeedsForMovement_def normalizedFactorMagnitude_def Let_def)


text \<open>
  With both factors 0 the two quotients are \<open>0 / 0\<close>, the sum of their magnitudes is NaN, and
  the first of the two assertions fails.
\<close>

lemma setWheelSpeedsForMovement_zero:
  assumes "rounded 0 = 0"
  shows "normalizedFactorMagnitude rounded 0 0 = NaN"
    and "setWheelSpeedsForMovement rounded f 0 0 m = Inl AssertionFailed"
  using assms
  by (simp_all add: setWheelSpeedsForMovement_def normalizedFactorMagnitude_def divideDouble_def)

text \<open>
  Over the real numbers, that is when no operation rounds, the sum of the magnitudes of the
  normalised factors is 1 whenever the factors are not both 0.
\<close>

lemma normalizedFactorMagnitude_exact:
  fixes fw tu :: real
  assumes "0 < \<bar>fw\<bar> + \<bar>tu\<bar>"
  shows "normalizedFactorMagnitude (\<lambda>x. x) fw tu = Finite 1"
proof -
  have "\<bar>fw / (\<bar>fw\<bar> + \<bar>tu\<bar>)\<bar> + \<bar>tu / (\<bar>fw\<bar> + \<bar>tu\<bar>)\<bar> =
        \<bar>fw\<bar> / (\<bar>fw\<bar> + \<bar>tu\<bar>) + \<bar>tu\<bar> / (\<bar>fw\<bar> + \<bar>tu\<bar>)"
    using assms by (simp add: abs_divide abs_of_pos)
  also have "\<dots> = (\<bar>fw\<bar> + \<bar>tu\<bar>) / (\<bar>fw\<bar> + \<bar>tu\<bar>)"
    by (simp only: add_divide_distrib)
  also have "\<dots> = 1" using assms by simp
  finally show ?thesis
    using assms by (simp add: normalizedFactorMagnitude_def divideDouble_def Let_def)
qed

lemma stopAllWheels_result:
  assumes d: "distinct (map fst (wheels m))"
    and ok: "\<forall>(name, wheel) \<in> set (wheels m). 0 \<le> getMaxAngularVelocityMagnitude wheel"
  shows "stopAllWheels m = Inr (m\<lparr>wheels := map (\<lambda>(name, wheel). (name, setAngularVelocity 0 wheel)) (wheels m)\<rparr>)"
proof -
  have "withinMax (\<lambda>name wheel. 0) (wheels m)"
    using ok by (auto simp: withinMax_def)
  then show ?thesis
    using setWheelSpeeds_all [OF d, of "\<lambda>name wheel. 0"] by (simp add: stopAllWheels_def)
qed

subsection \<open>Rounding to the nearest double\<close>

lemma roundHalfEven_eq:
  assumes "of_int n - 1 / 2 < x" and "x < of_int n + 1 / 2"
  shows "roundHalfEven x = n"
proof (cases "of_int n \<le> x")
  case True
  with assms have "\<lfloor>x\<rfloor> = n" by linarith
  with assms show ?thesis by (simp add: roundHalfEven_def Let_def)
next
  case False
  with assms have "\<lfloor>x\<rfloor> = n - 1" by linarith
  with assms False show ?thesis by (simp add: roundHalfEven_def Let_def)
qed

lemma exponent_of:
  fixes x :: real
  assumes "2 powi e \<le> \<bar>x\<bar>" and "\<bar>x\<bar> < 2 powi (e + 1)"
  shows "\<lfloor>log 2 \<bar>x\<bar>\<rfloor> = e"
proof -
  have pos: "0 < \<bar>x\<bar>" using assms(1) by (smt (verit) zero_less_power_int zero_less_numeral)
  have a: "(2::real) powr of_int e = 2 powi e" by (simp add: powr_real_of_int')
  have b: "(2::real) powr (of_int e + 1) = 2 powi (e + 1)"
    using powr_real_of_int' [of 2 "e + 1"] by simp
  show ?thesis
    using assms by (simp add: floor_log_eq_powr_iff [OF pos] a b)
qed

lemma roundToDouble_value:
  assumes "2 powi e \<le> \<bar>x\<bar>" and "\<bar>x\<bar> < 2 powi (e + 1)"
    and "of_int n - 1 / 2 < x / 2 powi (e - 52)" and "x / 2 powi (e - 52) < of_int n + 1 / 2"
  shows "roundToDouble x = of_int n * 2 powi (e - 52)"
proof -
  have "x \<noteq> 0" using assms(1) by (smt (verit) zero_less_power_int zero_less_numeral)
  then show ?thesis
    by (simp add: roundToDouble_def Let_def exponent_of [OF assms(1,2)]
        roundHalfEven_eq [OF assms(3,4)])
qed


lemma rd_one: "roundToDouble 1 = 1"
  using roundToDouble_value [of 0 1 "2 ^ 52"] by simp

lemma rd_minus_one: "roundToDouble (- 1) = - 1"
  using roundToDouble_value [of 0 "- 1" "- (2 ^ 52)"] by simp





lemma rd_hundredth: "roundToDouble (1 / 100) = 5764607523034235 / 2 ^ 59"
  using roundToDouble_value [of "- 7" "1 / 100" 5764607523034235] by simp

lemma rd_magnitude:
  "roundToDouble (\<bar>5764607523034235 / 2 ^ 59\<bar> + \<bar>2\<bar>) = 4526117625507348 / 2 ^ 51"
  using roundToDouble_value [of 1 "\<bar>5764607523034235 / 2 ^ 59\<bar> + \<bar>2\<bar>" 4526117625507348] by simp

lemma rd_forward:
  "roundToDouble (5764607523034235 / 2 ^ 59 / (4526117625507348 / 2 ^ 51)) = 5735927883616155 / 2 ^ 60"
  using roundToDouble_value [of "- 8" "5764607523034235 / 2 ^ 59 / (4526117625507348 / 2 ^ 51)" 5735927883616155] by simp

lemma rd_turn:
  "roundToDouble (2 / (4526117625507348 / 2 ^ 51)) = 8962387318150242 / 2 ^ 53"
  using roundToDouble_value [of "- 1" "2 / (4526117625507348 / 2 ^ 51)" 8962387318150242] by simp

lemma rd_sum:
  "roundToDouble (\<bar>5735927883616155 / 2 ^ 60\<bar> + \<bar>8962387318150242 / 2 ^ 53\<bar>) = 1 + 1 / 2 ^ 52"
  using roundToDouble_value [of 0 "\<bar>5735927883616155 / 2 ^ 60\<bar> + \<bar>8962387318150242 / 2 ^ 53\<bar>" 4503599627370497] by simp


text \<open>
  The call \<^verbatim>\<open>setWheelSpeedsForMovement(f, 0.01, 2.0)\<close>, step by step: the literal \<^verbatim>\<open>0.01\<close> is the
  double \<open>5764607523034235 / 2 ^ 59\<close>, the sum of the magnitudes is rounded to
  \<open>4526117625507348 / 2 ^ 51\<close>, the two quotients to \<open>5735927883616155 / 2 ^ 60\<close> and
  \<open>8962387318150242 / 2 ^ 53\<close>, and their sum to \<open>1 + 1 / 2 ^ 52\<close>.
\<close>

lemma normalizedFactorMagnitude_hundredth:
  "normalizedFactorMagnitude roundToDouble (roundToDouble (1 / 100)) 2 = Finite (1 + 1 / 2 ^ 52)"
proof -
  have m: "roundToDouble (\<bar>5764607523034235 / 2 ^ 59\<bar> + \<bar>2\<bar>) \<noteq> 0"
    unfolding rd_magnitude by simp
  show ?thesis
    unfolding normalizedFactorMagnitude_def rd_hundredth Let_def divideDouble_def
    using m
    by (simp only: if_False absDouble.simps addDouble.simps rd_magnitude rd_forward rd_turn rd_sum)
qed


lemma exampleMouse_max:
  "\<forall>(name, wheel) \<in> set (wheels exampleMouse). 0 \<le> getMaxAngularVelocityMagnitude wheel"
  by (simp add: exampleMouse_fields exampleWheel_fields)

text \<open>
  Claim C10. \<^verbatim>\<open>Mouse::setWheelSpeedsForMovement\<close> divides both factors by the sum of their
  magnitudes without a guard, and then asserts that the magnitudes of the two quotients add
  up to at most 1. In the arithmetic of doubles they need not: for the factors \<^verbatim>\<open>0.01\<close> and
  \<^verbatim>\<open>2.0\<close> the sum is \<open>1 + 1 / 2 ^ 52\<close>, the assertion fails, and the call, whatever the fraction
  and the mouse, sets no wheel speed.
\<close>

theorem setWheelSpeedsForMovement_rounding_fails_assertion:
  "normalizedFactorMagnitude roundToDouble (roundToDouble (1 / 100)) 2 = Finite (1 + 1 / 2 ^ 52) \<and>
   setWheelSpeedsForMovement roundToDouble f (roundToDouble (1 / 100)) 2 m = Inl AssertionFailed"
proof -
  have "\<not> lessEqDouble (normalizedFactorMagnitude roundToDouble (roundToDouble (1 / 100)) 2) (Finite 1)"
    by (simp add: normalizedFactorMagnitude_hundredth)
  then show ?thesis
    by (simp only: normalizedFactorMagnitude_hundredth setWheelSpeedsForMovement_fails simp_thms)
qed


section \<open>Curve-turn factors\<close>

lemma totalRatesOfChange_sums:
  "totalRatesOfChange p r factors ws (a, b) =
     (if \<forall>(name, wheel) \<in> set ws. map_of factors name \<noteq> None
      then Inr (a + totalForwardRate p r ws factors, b + totalRadialRate p r ws factors)
      else Inl AssertionFailed)"
proof (induction ws arbitrary: a b)
  case Nil
  show ?case by (simp add: totalForwardRate_def totalRadialRate_def)
next
  case (Cons x ws)
  obtain name wheel where x: "x = (name, wheel)" by (cases x)
  show ?case
  proof (cases "map_of factors name")
    case None
    then show ?thesis by (simp add: x)
  next
    case (Some fs)
    have tf: "totalForwardRate p r ((name, wheel) # ws) factors =
        fst (drivenRates p r wheel (fst fs)) + fst (drivenRates p r wheel (snd fs))
          + totalForwardRate p r ws factors"
      by (simp add: totalForwardRate_def Some)
    have tr: "totalRadialRate p r ((name, wheel) # ws) factors =
        snd (drivenRates p r wheel (fst fs)) + snd (drivenRates p r wheel (snd fs))
          + totalRadialRate p r ws factors"
      by (simp add: totalRadialRate_def Some)
    show ?thesis
      unfolding x tf tr
      by (simp add: Some Let_def Cons.IH drivenRates_def add.assoc)
  qed
qed

lemma quarter_turn: "getRadiansZeroTo2pi (Degrees 90) = pi / 2"
proof -
  have "Degrees 90 / (2 * pi) = 1 / 4" by (simp add: Degrees_def)
  then have "\<lfloor>Degrees 90 / (2 * pi)\<rfloor> = \<lfloor>1 / 4 :: real\<rfloor>" by (simp only:)
  also have "\<dots> = 0" by simp
  finally have "\<lfloor>Degrees 90 / (2 * pi)\<rfloor> = 0" .
  then show ?thesis by (simp add: getRadiansZeroTo2pi_def Degrees_def)
qed

lemma getCurveTurnFactors_value:
  assumes "\<forall>(name, wheel) \<in> set ws. map_of factors name \<noteq> None"
  shows "getCurveTurnFactors p r ws factors arc =
           Inr ((arc / (pi / 2)) * (totalRadialRate p r ws factors / totalForwardRate p r ws factors), 1)"
  using assms by (simp add: getCurveTurnFactors_def totalRatesOfChange_sums quarter_turn Let_def)

lemma initialize_curveTurnFactors:
  assumes "initialize rounded env d m0 = Inr (ok, m)" and "parserSuccess env"
  shows "getCurveTurnFactors (getInitialTranslation m) (getInitialRotation m) (wheels m)
           (wheelSpeedAdjustmentFactors m) (pi * (wallLength env / 2) / 2) = Inr (curveTurnFactors m)"
  using assms
  by (auto simp: initialize_def Let_def mult_ac split: prod.splits sum.splits)

lemma exampleWheelAt_north:
  "getRatesOfChange \<lparr>getX = 1, getY = 1\<rparr> 0 (wheelInitialPosition (exampleWheelAt \<lparr>getX = 1, getY = 2\<rparr>))
     (wheelInitialDirection (exampleWheelAt \<lparr>getX = 1, getY = 2\<rparr>)) v = (v, - v)"
  by (simp add: exampleWheelAt_def exampleWheel_def getRatesOfChange_def cartesianMinus_def getTheta_def
      getRho_def atan2_def Let_def)

lemma exampleWheelAt_south:
  "getRatesOfChange \<lparr>getX = 1, getY = 1\<rparr> 0 (wheelInitialPosition (exampleWheelAt \<lparr>getX = 1, getY = 0\<rparr>))
     (wheelInitialDirection (exampleWheelAt \<lparr>getX = 1, getY = 0\<rparr>)) v = (v, v)"
  by (simp add: exampleWheelAt_def exampleWheel_def getRatesOfChange_def cartesianMinus_def getTheta_def
      getRho_def atan2_def Let_def)

lemma exampleWheelAt_fields:
  "getRadius (exampleWheelAt p) = 1" "getMaxAngularVelocityMagnitude (exampleWheelAt p) = 10"
  "wheelInitialPolygon (exampleWheelAt p) = [p]"
  by (simp_all add: exampleWheelAt_def exampleWheel_def)

lemma example_factors:
  "getWheelSpeedAdjustmentFactors roundToDouble \<lparr>getX = 1, getY = 1\<rparr> 0
     [(''left'', exampleWheelAt \<lparr>getX = 1, getY = 2\<rparr>),
      (''right'', exampleWheelAt \<lparr>getX = 1, getY = 0\<rparr>)] =
   Inr [(''left'', 1, - 1), (''right'', 1, 1)]"
  by (simp add: getWheelSpeedAdjustmentFactors_def ratesOfChangePairs_def exampleWheelAt_north
      exampleWheelAt_south exampleWheelAt_fields divideDouble_def rd_one rd_minus_one)

lemma example_totals:
  "totalForwardRate \<lparr>getX = 1, getY = 1\<rparr> 0
     [(''left'', exampleWheelAt \<lparr>getX = 1, getY = 2\<rparr>),
      (''right'', exampleWheelAt \<lparr>getX = 1, getY = 0\<rparr>)]
     [(''left'', 1, - 1), (''right'', 1, 1)] = 20"
  "totalRadialRate \<lparr>getX = 1, getY = 1\<rparr> 0
     [(''left'', exampleWheelAt \<lparr>getX = 1, getY = 2\<rparr>),
      (''right'', exampleWheelAt \<lparr>getX = 1, getY = 0\<rparr>)]
     [(''left'', 1, - 1), (''right'', 1, 1)] = 20"
  by (simp_all add: totalForwardRate_def totalRadialRate_def drivenRates_def exampleWheelAt_north
      exampleWheelAt_south exampleWheelAt_fields)

lemma example_curve:
  "getCurveTurnFactors \<lparr>getX = 1, getY = 1\<rparr> 0
     [(''left'', exampleWheelAt \<lparr>getX = 1, getY = 2\<rparr>),
      (''right'', exampleWheelAt \<lparr>getX = 1, getY = 0\<rparr>)]
     [(''left'', 1, - 1), (''right'', 1, 1)] (pi / 2) = Inr (1, 1)"
  by (simp add: getCurveTurnFactors_value example_totals)

lemma example_initialize:
  "initialize roundToDouble exampleCollaborators EAST exampleMouse = Inr (True, exampleInitialized)"
  by (simp add: initialize_def Let_def exampleCollaborators_def Degrees_def example_factors example_curve
      exampleMouse_def exampleInitialized_def exampleWheelAt_fields)

lemma exampleInitialized_off_centre:
  "\<forall>(name, wheel) \<in> set (wheels exampleInitialized).
      getRho (cartesianMinus (getInitialTranslation exampleInitialized)
                (wheelInitialPosition wheel)) \<noteq> 0"
  by (simp add: exampleInitialized_def exampleWheelAt_def exampleWheel_def cartesianMinus_def
      getRho_def)

text \<open>
  Claim C5. When every wheel has its pair of adjustment factors, no wheel is at the initial
  centre and the total forward rate is not zero, \<^verbatim>\<open>Mouse::getCurveTurnFactors\<close> returns \<open>(A, B)\<close>
  with \<open>B = 1\<close> and \<open>A = (L / (pi / 2)) * (totalRadialRate / totalForwardRate)\<close>, the totals
  being the sums, over all wheels, of the forward and radial contributions at the wheel's
  maximum linear velocity scaled by its first and then by its second adjustment factor.
  \<^verbatim>\<open>Mouse::initialize\<close> calls it, once the parser has opened the mouse file, with the arc length
  \<open>L = pi * (wallLength / 2) / 2\<close> and stores the pair as the mouse's curve-turn factors.
\<close>

theorem getCurveTurnFactors_solves_for_A:
  "((\<forall>(name, wheel) \<in> set ws. map_of factors name \<noteq> None) \<and>
    (\<forall>(name, wheel) \<in> set ws. getRho (cartesianMinus p (wheelInitialPosition wheel)) \<noteq> 0) \<and>
    totalForwardRate p r ws factors \<noteq> 0 \<longrightarrow>
    getCurveTurnFactors p r ws factors arc =
      Inr ((arc / (pi / 2)) * (totalRadialRate p r ws factors / totalForwardRate p r ws factors), 1)) \<and>
   (initialize rounded env d m0 = Inr (ok, m) \<and> parserSuccess env \<and>
    (\<forall>(name, wheel) \<in> set (wheels m).
       getRho (cartesianMinus (getInitialTranslation m) (wheelInitialPosition wheel)) \<noteq> 0) \<longrightarrow>
    getCurveTurnFactors (getInitialTranslation m) (getInitialRotation m) (wheels m)
      (wheelSpeedAdjustmentFactors m) (pi * (wallLength env / 2) / 2) = Inr (curveTurnFactors m))"
  using getCurveTurnFactors_value initialize_curveTurnFactors by blast

text \<open>
  For the example collaborators the differential drive gets the factors \<open>(1, - 1)\<close> and
  \<open>(1, 1)\<close>, both totals are 20, and the curve-turn factors are \<open>(1, 1)\<close>.
\<close>

theorem getCurveTurnFactors_solves_for_A_witness:
  "totalForwardRate (getInitialTranslation exampleInitialized) (getInitialRotation exampleInitialized)
     (wheels exampleInitialized) (wheelSpeedAdjustmentFactors exampleInitialized) = 20 \<and>
   totalRadialRate (getInitialTranslation exampleInitialized) (getInitialRotation exampleInitialized)
     (wheels exampleInitialized) (wheelSpeedAdjustmentFactors exampleInitialized) = 20 \<and>
   getRho (cartesianMinus (getInitialTranslation exampleInitialized)
             (wheelInitialPosition (exampleWheelAt \<lparr>getX = 1, getY = 2\<rparr>))) = 1 \<and>
   getRho (cartesianMinus (getInitialTranslation exampleInitialized)
             (wheelInitialPosition (exampleWheelAt \<lparr>getX = 1, getY = 0\<rparr>))) = 1 \<and>
   getCurveTurnFactors (getInitialTranslation exampleInitialized) (getInitialRotation exampleInitialized)
     (wheels exampleInitialized) (wheelSpeedAdjustmentFactors exampleInitialized) (pi / 2) = Inr (1, 1) \<and>
   parserSuccess exampleCollaborators \<and>
   initialize roundToDouble exampleCollaborators EAST exampleMouse = Inr (True, exampleInitialized) \<and>
   Inr (curveTurnFactors exampleInitialized) =
     getCurveTurnFactors (getInitialTranslation exampleInitialized)
      (getInitialRotation exampleInitialized) (wheels exampleInitialized)
      (wheelSpeedAdjustmentFactors exampleInitialized)
      (pi * (wallLength exampleCollaborators / 2) / 2)"
proof -
  have t: "totalForwardRate (getInitialTranslation exampleInitialized) (getInitialRotation exampleInitialized)
     (wheels exampleInitialized) (wheelSpeedAdjustmentFactors exampleInitialized) = 20"
     "totalRadialRate (getInitialTranslation exampleInitialized) (getInitialRotation exampleInitialized)
     (wheels exampleInitialized) (wheelSpeedAdjustmentFactors exampleInitialized) = 20"
    by (simp_all add: exampleInitialized_def example_totals)
  have k: "\<forall>(name, wheel) \<in> set (wheels exampleInitialized).
             map_of (wheelSpeedAdjustmentFactors exampleInitialized) name \<noteq> None"
    by (simp add: exampleInitialized_def)
  have c: "getRho (cartesianMinus (getInitialTranslation exampleInitialized)
             (wheelInitialPosition (exampleWheelAt \<lparr>getX = 1, getY = 2\<rparr>))) = 1"
    "getRho (cartesianMinus (getInitialTranslation exampleInitialized)
             (wheelInitialPosition (exampleWheelAt \<lparr>getX = 1, getY = 0\<rparr>))) = 1"
    by (simp_all add: exampleInitialized_def exampleWheelAt_def exampleWheel_def cartesianMinus_def
        getRho_def)
  have p: "parserSuccess exampleCollaborators" by (simp add: exampleCollaborators_def)
  show ?thesis
    using getCurveTurnFactors_solves_for_A [of "wheels exampleInitialized" "wheelSpeedAdjustmentFactors exampleInitialized"
        "getInitialTranslation exampleInitialized" "getInitialRotation exampleInitialized" "pi / 2"
        roundToDouble exampleCollaborators EAST exampleMouse True exampleInitialized]
      t k c p example_initialize exampleInitialized_off_centre
    by simp
qed

subsection \<open>Adjustment factors after initialisation\<close>

text \<open>
  Once \<^verbatim>\<open>Mouse::initialize\<close> has run through, every wheel has a pair of adjustment factors and
  both are at most 1 in magnitude: the assertions of \<^verbatim>\<open>Mouse::getWheelSpeedAdjustmentFactors\<close>
  have passed for each of them.
\<close>

lemma finite_contribution:
  assumes "lessEqDouble (Finite (- 1)) a" and "lessEqDouble a (Finite 1)"
  shows "\<exists>x. a = Finite x"
  using assms by (cases a) simp_all

lemma normalizedContributions_Inr:
  "normalizedContributions rounded maxForward maxRadial pairs = Inr factors \<Longrightarrow>
     map fst factors = map fst pairs \<and>
     (\<forall>(name, aF, aT) \<in> set factors. \<bar>aF\<bar> \<le> 1 \<and> \<bar>aT\<bar> \<le> 1)"
proof (induction pairs arbitrary: factors)
  case Nil
  then show ?case by simp
next
  case (Cons p pairs)
  obtain name forwardRate radialRate where p: "p = (name, forwardRate, radialRate)"
    by (cases p)
  from Cons.prems obtain forward radial rest where
    r: "normalizedContributions rounded maxForward maxRadial pairs = Inr rest" and
    f: "factors = (name, forward, radial) # rest" and
    b: "- 1 \<le> forward" "forward \<le> 1" "- 1 \<le> radial" "radial \<le> 1"
    by (auto simp: p Let_def split: if_splits double.splits sum.splits)
  from Cons.IH [OF r] b show ?case
    by (simp add: f p abs_le_iff)
qed

lemma getWheelSpeedAdjustmentFactors_bounded:
  assumes "getWheelSpeedAdjustmentFactors rounded p r ws = Inr factors"
    and "(name, wheel) \<in> set ws"
  shows "\<exists>aF aT. map_of factors name = Some (aF, aT) \<and> \<bar>aF\<bar> \<le> 1 \<and> \<bar>aT\<bar> \<le> 1"
proof -
  from assms(1) obtain maxForward maxRadial where
    "normalizedContributions rounded maxForward maxRadial (ratesOfChangePairs p r ws) = Inr factors"
    by (auto simp: getWheelSpeedAdjustmentFactors_def Let_def split: prod.splits)
  from normalizedContributions_Inr [OF this]
  have names: "map fst factors = map fst (ratesOfChangePairs p r ws)"
    and bounds: "\<forall>(name, aF, aT) \<in> set factors. \<bar>aF\<bar> \<le> 1 \<and> \<bar>aT\<bar> \<le> 1"
    by simp_all
  have "map fst (ratesOfChangePairs p r ws) = map fst ws"
    by (simp add: ratesOfChangePairs_def comp_def case_prod_unfold)
  with names assms(2) have "name \<in> fst ` set factors"
    by (metis image_eqI fst_conv set_map)
  then obtain v where v: "map_of factors name = Some v"
    by (metis map_of_eq_None_iff not_Some_eq)
  then have "(name, v) \<in> set factors" by (rule map_of_SomeD)
  with bounds v show ?thesis by (cases v) auto
qed

lemma initialize_adjustment_factors:
  assumes "initialize rounded env d m0 = Inr (ok, m)" and "parserSuccess env"
    and "(name, wheel) \<in> set (wheels m)"
  shows "\<exists>aF aT. map_of (wheelSpeedAdjustmentFactors m) name = Some (aF, aT) \<and>
           \<bar>aF\<bar> \<le> 1 \<and> \<bar>aT\<bar> \<le> 1"
proof -
  from assms(1,2) have
    "getWheelSpeedAdjustmentFactors rounded (getInitialTranslation m) (getInitialRotation m) (wheels m)
       = Inr (wheelSpeedAdjustmentFactors m)"
    by (auto simp: initialize_def Let_def split: prod.splits sum.splits)
  from getWheelSpeedAdjustmentFactors_bounded [OF this assms(3)] show ?thesis .
qed
section \<open>Current polygons\<close>

lemma rigid_motion_vertex:
  "rotateVertexAroundPoint (translateVertex v (cartesianMinus t p0)) a t =
     \<lparr>getX = getX t + (getX v - getX p0) * cos a - (getY v - getY p0) * sin a,
      getY = getY t + (getX v - getX p0) * sin a + (getY v - getY p0) * cos a\<rparr>"
  by (simp add: rotateVertexAroundPoint_def translateVertex_def cartesianPlus_def
      cartesianMinus_def Let_def)

lemma getCurrentPolygon_initial_pose:
  "getCurrentPolygon m poly (getInitialTranslation m) (getInitialRotation m) = poly"
  by (simp add: getCurrentPolygon_def rotateAroundPoint_def translate_def
      rotateVertexAroundPoint_def translateVertex_def cartesianPlus_def cartesianMinus_def
      Let_def o_def map_idI)

text \<open>
  Claim C9. For every pose \<open>(currentTranslation, currentRotation)\<close>, the body polygon, every
  wheel polygon and every sensor polygon that the mouse returns is the initial polygon
  translated by \<open>currentTranslation - initialTranslation\<close> and then rotated by
  \<open>currentRotation - initialRotation\<close> about \<open>currentTranslation\<close>.
\<close>

theorem current_polygons_translate_then_rotate:
  "getCurrentBodyPolygon m currentTranslation currentRotation =
     rotateAroundPoint
       (translate (initialBodyPolygon m) (cartesianMinus currentTranslation (getInitialTranslation m)))
       (currentRotation - getInitialRotation m) currentTranslation \<and>
   getCurrentWheelPolygons m currentTranslation currentRotation =
     map (\<lambda>(name, wheel).
            rotateAroundPoint
              (translate (wheelInitialPolygon wheel)
                 (cartesianMinus currentTranslation (getInitialTranslation m)))
              (currentRotation - getInitialRotation m) currentTranslation) (wheels m) \<and>
   getCurrentSensorPolygons m currentTranslation currentRotation =
     map (\<lambda>(name, sensor).
            rotateAroundPoint
              (translate (sensorInitialPolygon sensor)
                 (cartesianMinus currentTranslation (getInitialTranslation m)))
              (currentRotation - getInitialRotation m) currentTranslation) (sensors m)"
  by (simp add: getCurrentBodyPolygon_def getCurrentWheelPolygons_def getCurrentSensorPolygons_def
      getCurrentPolygon_def)

text \<open>
  The example mouse moved to \<open>(1, 1)\<close> and turned by a quarter turn: the wheel that started one
  metre north of the centre is now one metre west of it, the other one metre east.
\<close>

theorem current_polygons_translate_then_rotate_witness:
  "getCurrentWheelPolygons exampleMouse \<lparr>getX = 1, getY = 1\<rparr> (pi / 2) =
     [ [\<lparr>getX = 0, getY = 1\<rparr>], [\<lparr>getX = 2, getY = 1\<rparr>] ]"
  using current_polygons_translate_then_rotate [of exampleMouse "\<lparr>getX = 1, getY = 1\<rparr>" "pi / 2"]
  by (simp add: exampleMouse_def exampleWheel_def rotateAroundPoint_def translate_def
      rotateVertexAroundPoint_def translateVertex_def cartesianPlus_def cartesianMinus_def)

section \<open>Maze files\<close>

subsection \<open>Lines, tokens and decimal numbers\<close>

lemma getlines_examples:
  "getlines ''a'' = [''a'']"
  "getlines (''a'' @ [CHR 0x0A]) = [''a'']"
  "getlines (''a'' @ [CHR 0x0A] @ ''b'') = [''a'', ''b'']"
  "getlines (''a'' @ [CHR 0x0A, CHR 0x0A]) = [''a'', []]"
  "getlines [CHR 0x0A] = [ [] ]"
  by simp_all

lemma tokenize_examples:
  "tokenize '' 0  12 x '' = [''0'', ''12'', ''x'']"
  "tokenizeAt (CHR ''+'') ''+---+---+'' = [''---'', ''---'']"
  "strToInt ''12'' = 12" "strToInt ''-3'' = - 3" "isInt ''12''" "\<not> isInt ''1x''" "\<not> isInt ''-''"
  by (simp_all add: tokenize_def tokenizeAt_def isWhitespace_def strToInt_def isInt_def
      isDigit_def digitsToNat_def)

lemma getlines_line:
  assumes "CHR 0x0A \<notin> set line"
  shows "getlines (line @ CHR 0x0A # text) = line # getlines text"
  using assms by (induction line) auto

lemma getlines_written:
  assumes "\<forall>line \<in> set ls. CHR 0x0A \<notin> set line"
  shows "getlines (concat (map (\<lambda>line. line @ [CHR 0x0A]) ls)) = ls"
  using assms by (induction ls) (simp_all add: getlines_line)

lemma tokenizeFrom_word:
  assumes "\<forall>c \<in> set s. \<not> d c"
  shows "tokenizeFrom d w (s @ rest) = tokenizeFrom d (w @ s) rest"
  using assms by (induction s arbitrary: w) auto

lemma tokenizeFrom_token:
  assumes "\<forall>c \<in> set s. \<not> d c" and "s \<noteq> []" and "d c"
  shows "tokenizeFrom d [] (s @ c # rest) = s # tokenizeFrom d [] rest"
  using assms by (simp add: tokenizeFrom_word)

lemma tokenizeFrom_last:
  assumes "\<forall>c \<in> set s. \<not> d c" and "s \<noteq> []"
  shows "tokenizeFrom d [] s = [s]"
  using tokenizeFrom_word [OF assms(1), of "[]" "[]"] assms(2) by simp

lemma showNat_digits: "list_all isDigit (showNat n)"
proof (induction n rule: showNat.induct)
  case (1 n)
  have d: "isDigit (char_of (48 + k))" if "k < 10" for k :: nat
    using that by (simp add: isDigit_def)
  show ?case
  proof (cases "n < 10")
    case True
    then show ?thesis by (subst showNat.simps) (simp add: d)
  next
    case False
    then show ?thesis using 1 by (subst showNat.simps) (simp add: d)
  qed
qed

lemma showNat_nonempty: "showNat n \<noteq> []"
  by (subst showNat.simps) simp

lemma digitsToNat_snoc: "digitsToNat (s @ [c]) = 10 * digitsToNat s + (of_char c - 48)"
  by (simp add: digitsToNat_def)

lemma digitsToNat_showNat: "digitsToNat (showNat n) = n"
proof (induction n rule: showNat.induct)
  case (1 n)
  show ?case
  proof (cases "n < 10")
    case True
    then show ?thesis by (subst showNat.simps) (simp add: digitsToNat_def)
  next
    case False
    then have "digitsToNat (showNat n) = 10 * (n div 10) + n mod 10"
      using 1 by (subst showNat.simps) (simp add: digitsToNat_snoc)
    then show ?thesis by simp
  qed
qed

lemma isDigit_not_minus: "isDigit c \<Longrightarrow> c \<noteq> CHR ''-''"
  by (auto simp: isDigit_def)

lemma isDigit_not_space: "isDigit c \<Longrightarrow> \<not> isWhitespace c"
  by (auto simp: isDigit_def isWhitespace_def)

lemma isDigit_not_newline: "isDigit c \<Longrightarrow> c \<noteq> CHR 0x0A"
  by (auto simp: isDigit_def)

lemma digits_isInt:
  assumes "list_all isDigit s" and "s \<noteq> []"
  shows "isInt s \<and> strToInt s = int (digitsToNat s)"
proof (cases s)
  case Nil
  with assms show ?thesis by simp
next
  case (Cons c cs)
  with assms have "isDigit c" by simp
  then have "c \<noteq> CHR ''-''" by (rule isDigit_not_minus)
  then show ?thesis using assms by (simp add: Cons isInt_def strToInt_def)
qed

lemma isInt_showNat: "isInt (showNat n)"
  using digits_isInt [OF showNat_digits showNat_nonempty] by simp

lemma strToInt_showNat: "strToInt (showNat n) = int n"
  using digits_isInt [OF showNat_digits showNat_nonempty, of n] by (simp add: digitsToNat_showNat)

subsection \<open>Validation of the numeric form\<close>

lemma firstNonNumeric_None: "firstNonNumeric ts i = None \<longleftrightarrow> list_all isInt ts"
  by (induction ts arbitrary: i) auto

lemma firstNonNumeric_Some:
  "firstNonNumeric ts i = Some (t, k) \<Longrightarrow> \<not> isInt t \<and> i \<le> k \<and> k < i + length ts \<and> ts ! (k - i) = t"
proof (induction ts arbitrary: i)
  case Nil
  then show ?case by simp
next
  case (Cons a ts)
  show ?case
  proof (cases "isInt a")
    case True
    with Cons.prems have "firstNonNumeric ts (i + 1) = Some (t, k)" by simp
    from Cons.IH [OF this] show ?thesis by (auto simp: nth_Cons')
  next
    case False
    with Cons.prems show ?thesis by auto
  qed
qed

lemma firstInvalidWall_None:
  "firstInvalidWall vs is = None \<longleftrightarrow> list_all (\<lambda>i. vs ! (2 + i) = 0 \<or> vs ! (2 + i) = 1) is"
  by (induction "is") (auto simp: Let_def)

lemma invalidWall_binary:
  assumes "length (tokenize line) = 6"
  shows "(firstInvalidWall (map strToInt (tokenize line)) [0, 1, 2, 3] = None) = binaryWalls line"
proof -
  have a: "(firstInvalidWall vs [0, 1, 2, 3] = None) =
        ((vs ! 2 = 0 \<or> vs ! 2 = 1) \<and> (vs ! 3 = 0 \<or> vs ! 3 = 1) \<and>
         (vs ! 4 = 0 \<or> vs ! 4 = 1) \<and> (vs ! 5 = 0 \<or> vs ! 5 = 1))" for vs
    by (simp add: firstInvalidWall_None eval_nat_numeral del: firstInvalidWall.simps)
  have b: "((map strToInt (tokenize line) ! 2 = 0 \<or> map strToInt (tokenize line) ! 2 = 1) \<and>
            (map strToInt (tokenize line) ! 3 = 0 \<or> map strToInt (tokenize line) ! 3 = 1) \<and>
            (map strToInt (tokenize line) ! 4 = 0 \<or> map strToInt (tokenize line) ! 4 = 1) \<and>
            (map strToInt (tokenize line) ! 5 = 0 \<or> map strToInt (tokenize line) ! 5 = 1)) =
           binaryWalls line"
    using assms by (simp add: binaryWalls_def)
  show ?thesis by (simp only: a b)
qed

lemma checkLine_Inr:
  assumes "checkLine line n ex ey = Inr (ex', ey')"
  shows "sixIntegers line \<and> binaryWalls line \<and>
         ((lineX line = ex \<and> lineY line = ey \<and> ex' = ex \<and> ey' = ey + 1) \<or>
          (lineX line = ex + 1 \<and> lineY line = 0 \<and> ey \<noteq> 0 \<and> ex' = ex + 1 \<and> ey' = 1))"
proof -
  from assms have six: "length (tokenize line) = 6"
    by (auto simp: checkLine_def Let_def split: if_splits)
  from assms six have none: "firstNonNumeric (tokenize line) 0 = None"
    by (cases "firstNonNumeric (tokenize line) 0") (auto simp: checkLine_def Let_def)
  then have ints: "list_all isInt (tokenize line)"
    by (simp add: firstNonNumeric_None)
  from assms six none have w: "firstInvalidWall (map strToInt (tokenize line)) [0, 1, 2, 3] = None"
    by (cases "firstInvalidWall (map strToInt (tokenize line)) [0, 1, 2, 3]")
      (auto simp: checkLine_def Let_def simp del: firstInvalidWall.simps One_nat_def
        split: if_splits)
  then have bw: "binaryWalls line"
    by (simp only: invalidWall_binary [OF six])
  from assms six none w
  have "(lineX line = ex \<and> lineY line = ey \<and> ex' = ex \<and> ey' = ey + 1) \<or>
          (lineX line = ex + 1 \<and> lineY line = 0 \<and> ey \<noteq> 0 \<and> ex' = ex + 1 \<and> ey' = 1)"
    by (auto simp: checkLine_def Let_def lineX_def lineY_def
        simp del: firstInvalidWall.simps One_nat_def split: if_splits)
  with six ints bw show ?thesis by (simp add: sixIntegers_def)
qed

lemma checkLines_accepted:
  "checkLines ls n ex ey = Inr () \<Longrightarrow> accepted ex ey (coordinates ls)"
proof (induction ls arbitrary: n ex ey)
  case Nil
  show ?case by (simp add: coordinates_def)
next
  case (Cons line ls)
  from Cons.prems obtain ex' ey' where
    c: "checkLine line (n + 1) ex ey = Inr (ex', ey')" and
    r: "checkLines ls (n + 1) ex' ey' = Inr ()"
    by (auto split: sum.splits)
  from checkLine_Inr [OF c] have
    "(lineX line = ex \<and> lineY line = ey \<and> ex' = ex \<and> ey' = ey + 1) \<or>
     (lineX line = ex + 1 \<and> lineY line = 0 \<and> ey \<noteq> 0 \<and> ex' = ex + 1 \<and> ey' = 1)"
    by simp
  then have s: "ex' = lineX line" "ey' = lineY line + 1"
    and h: "(lineX line = ex \<and> lineY line = ey) \<or> (lineX line = ex + 1 \<and> lineY line = 0 \<and> ey \<noteq> 0)"
    by auto
  from Cons.IH [OF r] have "accepted (lineX line) (lineY line + 1) (coordinates ls)"
    by (simp add: s)
  with h show ?case by (simp add: coordinates_def)
qed

lemma checkLines_wellFormed:
  "checkLines ls n ex ey = Inr () \<Longrightarrow> \<forall>line \<in> set ls. sixIntegers line \<and> binaryWalls line"
proof (induction ls arbitrary: n ex ey)
  case Nil
  show ?case by simp
next
  case (Cons line ls)
  from Cons.prems obtain ex' ey' where
    c: "checkLine line (n + 1) ex ey = Inr (ex', ey')" and
    r: "checkLines ls (n + 1) ex' ey' = Inr ()"
    by (auto split: sum.splits)
  from checkLine_Inr [OF c] Cons.IH [OF r] show ?case by simp
qed

lemma lexLess_trans: "lexLess a b \<Longrightarrow> lexLess b c \<Longrightarrow> lexLess a c"
  by (cases a, cases b, cases c) auto

lemma accepted_lower_bound:
  "accepted ex ey cs \<Longrightarrow> \<forall>c \<in> set cs. c = (ex, ey) \<or> lexLess (ex, ey) c"
proof (induction cs arbitrary: ex ey)
  case Nil
  show ?case by simp
next
  case (Cons a cs)
  obtain x y where a: "a = (x, y)" by (cases a)
  from Cons.prems have h: "(x = ex \<and> y = ey) \<or> (x = ex + 1 \<and> y = 0 \<and> ey \<noteq> 0)"
    and t: "accepted x (y + 1) cs" by (simp_all add: a)
  from h have le: "(x, y) = (ex, ey) \<or> lexLess (ex, ey) (x, y)" by auto
  have up: "lexLess (x, y) (x, y + 1)" by simp
  have "c = (ex, ey) \<or> lexLess (ex, ey) c" if "c \<in> set cs" for c
  proof -
    from Cons.IH [OF t] that have "c = (x, y + 1) \<or> lexLess (x, y + 1) c" by blast
    then have "lexLess (x, y) c" using up lexLess_trans by blast
    with le show ?thesis using lexLess_trans by blast
  qed
  with le show ?case by (auto simp: a)
qed

lemma accepted_sorted: "accepted ex ey cs \<Longrightarrow> sorted_wrt lexLess cs"
proof (induction cs arbitrary: ex ey)
  case Nil
  show ?case by simp
next
  case (Cons a cs)
  obtain x y where a: "a = (x, y)" by (cases a)
  from Cons.prems have t: "accepted x (y + 1) cs" by (simp add: a)
  have up: "lexLess (x, y) (x, y + 1)" by simp
  have "lexLess (x, y) c" if "c \<in> set cs" for c
  proof -
    from accepted_lower_bound [OF t] that have "c = (x, y + 1) \<or> lexLess (x, y + 1) c" by blast
    then show ?thesis using up lexLess_trans by blast
  qed
  with Cons.IH [OF t] show ?case by (simp add: a)
qed

lemma sorted_lexLess_distinct: "sorted_wrt lexLess cs \<Longrightarrow> distinct cs"
  by (induction cs) auto

lemma accepted_adjacentOk: "accepted ex ey cs \<Longrightarrow> adjacentOk cs"
proof (induction cs arbitrary: ex ey rule: adjacentOk.induct)
  case (1 a b cs)
  obtain x y where a: "a = (x, y)" by (cases a)
  obtain x' y' where b: "b = (x', y')" by (cases b)
  from "1.prems" have t: "accepted x (y + 1) (b # cs)" by (simp add: a)
  then have "stepOk a b" by (auto simp: a b)
  with "1.IH" [OF t] show ?case by simp
qed simp_all

lemma accepted_wellOrdered:
  assumes "accepted 0 0 cs"
  shows "coordinatesWellOrdered cs"
proof -
  have "case cs of [] \<Rightarrow> True | c # rest \<Rightarrow> c = (0, 0)"
    using assms by (cases cs) auto
  then show ?thesis
    using accepted_adjacentOk [OF assms] sorted_lexLess_distinct [OF accepted_sorted [OF assms]]
    by (simp add: coordinatesWellOrdered_def)
qed

lemma isMazeFileNumType_Inr:
  assumes "isMazeFileNumType mazeFile = Inr ()"
  shows "\<exists>text. mazeFile = Contents text \<and> text \<noteq> [] \<and> checkLines (getlines text) 0 0 0 = Inr ()"
  using assms by (cases mazeFile) (auto simp: isMazeFileNumType_def split: if_splits)

lemma checkLine_duplicate:
  assumes "sixIntegers line" and "lineX line = 0" and "lineY line = 0"
  shows "checkLine line n 0 1 = Inl (UnexpectedXY 0 0 n)"
  using assms
  by (simp add: checkLine_def Let_def sixIntegers_def firstNonNumeric_None [THEN iffD2]
      lineX_def lineY_def del: firstInvalidWall.simps One_nat_def)

lemma checkLine_first:
  assumes "sixIntegers line" and "binaryWalls line" and "lineX line = 0" and "lineY line = 0"
  shows "checkLine line n 0 0 = Inr (0, 1)"
proof -
  from assms have six: "length (tokenize line) = 6" by (simp add: sixIntegers_def)
  from assms have w: "firstInvalidWall (map strToInt (tokenize line)) [0, 1, 2, 3] = None"
    by (simp only: invalidWall_binary [OF six])
  from assms show ?thesis
    by (simp add: checkLine_def Let_def sixIntegers_def firstNonNumeric_None [THEN iffD2]
        lineX_def lineY_def w del: firstInvalidWall.simps One_nat_def)
qed

subsection \<open>Loading the numeric form\<close>

lemma tileOfTokens_lineTile: "tileOfTokens (tokenize line) = lineTile line"
  by (simp add: tileOfTokens_def lineTile_def DIRECTIONS_def insertWall_def emptyTile_def
      eval_nat_numeral)

lemma loadLines_step:
  "loadLines (line # rest) maze column =
     (if int (length maze) < lineX line
      then loadLines rest (maze @ [column]) [lineTile line]
      else loadLines rest maze (column @ [lineTile line]))"
  by (simp add: Let_def tileOfTokens_lineTile lineX_def)

lemma extends_snoc_tile:
  assumes "extends result maze (column @ [tile])"
  shows "extends result maze column \<and> length column < length (result ! length maze) \<and>
         result ! length maze ! length column = tile"
proof -
  let ?c = "result ! length maze"
  from assms have l: "length column + 1 \<le> length ?c"
    and t: "take (length column + 1) ?c = column @ [tile]"
    and m: "length maze < length result" "take (length maze) result = maze"
    by (simp_all add: extends_def)
  have "take (length column) ?c = take (length column) (take (length column + 1) ?c)"
    by simp
  also have "\<dots> = column" by (simp only: t) simp
  finally have c: "take (length column) ?c = column" .
  have "?c ! length column = take (length column + 1) ?c ! length column"
    by simp
  also have "\<dots> = tile" by (simp only: t) simp
  finally have "?c ! length column = tile" .
  with c l m show ?thesis by (simp add: extends_def)
qed

lemma extends_snoc_column:
  assumes "extends result (maze @ [column]) [tile]"
  shows "extends result maze column \<and> Suc (length maze) < length result \<and>
         0 < length (result ! Suc (length maze)) \<and> result ! Suc (length maze) ! 0 = tile"
proof -
  from assms have l: "Suc (length maze) < length result"
    and t: "take (Suc (length maze)) result = maze @ [column]"
    and c: "1 \<le> length (result ! Suc (length maze))"
      "take 1 (result ! Suc (length maze)) = [tile]"
    by (simp_all add: extends_def)
  have "take (length maze) result = take (length maze) (take (Suc (length maze)) result)"
    by simp
  also have "\<dots> = maze" by (simp only: t) simp
  finally have m: "take (length maze) result = maze" .
  have "result ! length maze = take (Suc (length maze)) result ! length maze"
    by simp
  also have "\<dots> = column" by (simp only: t) simp
  finally have r: "result ! length maze = column" .
  from c have "result ! Suc (length maze) ! 0 = tile"
    by (cases "result ! Suc (length maze)") simp_all
  moreover from c have "result ! Suc (length maze) \<noteq> []" by auto
  ultimately show ?thesis using l m r by (simp add: extends_def)
qed

lemma checkLines_step:
  assumes "checkLines (line # rest) n ex ey = Inr ()"
  shows "(lineX line = ex \<and> lineY line = ey \<and> checkLines rest (n + 1) ex (ey + 1) = Inr ()) \<or>
         (lineX line = ex + 1 \<and> lineY line = 0 \<and> ey \<noteq> 0 \<and>
          checkLines rest (n + 1) (ex + 1) 1 = Inr ())"
proof -
  from assms obtain ex' ey' where
    c: "checkLine line (n + 1) ex ey = Inr (ex', ey')" and
    r: "checkLines rest (n + 1) ex' ey' = Inr ()"
    by (auto split: sum.splits)
  from checkLine_Inr [OF c] r show ?thesis by auto
qed

lemma loadLines_positions:
  assumes "checkLines ls n (int (length maze)) (int (length column)) = Inr ()"
  shows "extends (loadLines ls maze column) maze column \<and>
         (\<forall>line \<in> set ls. \<exists>x y. lineX line = int x \<and> lineY line = int y \<and>
            x < length (loadLines ls maze column) \<and>
            y < length (loadLines ls maze column ! x) \<and>
            loadLines ls maze column ! x ! y = lineTile line) \<and>
         concat (loadLines ls maze column) = concat maze @ column @ map lineTile ls"
  using assms
proof (induction ls arbitrary: n maze column)
  case Nil
  show ?case by (simp add: extends_def)
next
  case (Cons line ls)
  let ?result = "loadLines (line # ls) maze column"
  from checkLines_step [OF Cons.prems]
  consider
    (sameColumn) "lineX line = int (length maze)" "lineY line = int (length column)"
      "checkLines ls (n + 1) (int (length maze)) (int (length column) + 1) = Inr ()"
  | (newColumn) "lineX line = int (length maze) + 1" "lineY line = 0" "length column \<noteq> 0"
      "checkLines ls (n + 1) (int (length maze) + 1) 1 = Inr ()"
    by auto
  then show ?case
  proof cases
    case sameColumn
    have r: "?result = loadLines ls maze (column @ [lineTile line])"
      by (simp only: loadLines_step sameColumn) simp
    from sameColumn(3) have "checkLines ls (n + 1) (int (length maze))
        (int (length (column @ [lineTile line]))) = Inr ()"
      by (simp add: add.commute)
    from Cons.IH [OF this]
    have e: "extends ?result maze (column @ [lineTile line])"
      and p: "\<forall>l \<in> set ls. \<exists>x y. lineX l = int x \<and> lineY l = int y \<and>
            x < length ?result \<and> y < length (?result ! x) \<and> ?result ! x ! y = lineTile l"
      and c: "concat ?result = concat maze @ (column @ [lineTile line]) @ map lineTile ls"
      unfolding r by simp_all
    from extends_snoc_tile [OF e]
    have e': "extends ?result maze column"
      and h: "length column < length (?result ! length maze)"
        "?result ! length maze ! length column = lineTile line"
      by simp_all
    from e' have "length maze < length ?result" by (simp add: extends_def)
    with h sameColumn have "\<exists>x y. lineX line = int x \<and> lineY line = int y \<and>
            x < length ?result \<and> y < length (?result ! x) \<and> ?result ! x ! y = lineTile line"
      by blast
    with e' p c show ?thesis by simp
  next
    case newColumn
    have r: "?result = loadLines ls (maze @ [column]) [lineTile line]"
      by (simp only: loadLines_step newColumn) simp
    from newColumn(4) have "checkLines ls (n + 1) (int (length (maze @ [column])))
        (int (length [lineTile line])) = Inr ()"
      by (simp add: add.commute)
    from Cons.IH [OF this]
    have e: "extends ?result (maze @ [column]) [lineTile line]"
      and p: "\<forall>l \<in> set ls. \<exists>x y. lineX l = int x \<and> lineY l = int y \<and>
            x < length ?result \<and> y < length (?result ! x) \<and> ?result ! x ! y = lineTile l"
      and c: "concat ?result = concat (maze @ [column]) @ [lineTile line] @ map lineTile ls"
      unfolding r by simp_all
    from extends_snoc_column [OF e]
    have e': "extends ?result maze column"
      and h: "Suc (length maze) < length ?result" "0 < length (?result ! Suc (length maze))"
        "?result ! Suc (length maze) ! 0 = lineTile line"
      by simp_all
    from newColumn have "lineX line = int (Suc (length maze))" "lineY line = int 0" by simp_all
    with h have "\<exists>x y. lineX line = int x \<and> lineY line = int y \<and>
            x < length ?result \<and> y < length (?result ! x) \<and> ?result ! x ! y = lineTile line"
      by blast
    with e' p c show ?thesis by simp
  qed
qed

lemma loadLines_sources:
  assumes "checkLines ls n (int (length maze)) (int (length column)) = Inr ()"
  shows "\<forall>x y. x < length (loadLines ls maze column) \<and> y < length (loadLines ls maze column ! x) \<longrightarrow>
     (x < length maze \<and> y < length (maze ! x)) \<or> (x = length maze \<and> y < length column) \<or>
     (\<exists>line \<in> set ls. lineX line = int x \<and> lineY line = int y)"
  using assms
proof (induction ls arbitrary: n maze column)
  case Nil
  show ?case by (auto simp: nth_append less_Suc_eq)
next
  case (Cons line ls)
  let ?result = "loadLines (line # ls) maze column"
  from checkLines_step [OF Cons.prems]
  consider
    (sameColumn) "lineX line = int (length maze)" "lineY line = int (length column)"
      "checkLines ls (n + 1) (int (length maze)) (int (length column) + 1) = Inr ()"
  | (newColumn) "lineX line = int (length maze) + 1" "lineY line = 0" "length column \<noteq> 0"
      "checkLines ls (n + 1) (int (length maze) + 1) 1 = Inr ()"
    by auto
  then show ?case
  proof cases
    case sameColumn
    have r: "?result = loadLines ls maze (column @ [lineTile line])"
      by (simp only: loadLines_step sameColumn) simp
    from sameColumn(3) have "checkLines ls (n + 1) (int (length maze))
        (int (length (column @ [lineTile line]))) = Inr ()"
      by (simp add: add.commute)
    from Cons.IH [OF this]
    have ih: "\<forall>x y. x < length ?result \<and> y < length (?result ! x) \<longrightarrow>
       (x < length maze \<and> y < length (maze ! x)) \<or>
       (x = length maze \<and> y < length (column @ [lineTile line])) \<or>
       (\<exists>l \<in> set ls. lineX l = int x \<and> lineY l = int y)"
      unfolding r by simp
    show ?thesis
    proof (intro allI impI)
      fix x y assume "x < length ?result \<and> y < length (?result ! x)"
      with ih have "(x < length maze \<and> y < length (maze ! x)) \<or>
         (x = length maze \<and> y < length (column @ [lineTile line])) \<or>
         (\<exists>l \<in> set ls. lineX l = int x \<and> lineY l = int y)" by blast
      then show "(x < length maze \<and> y < length (maze ! x)) \<or>
         (x = length maze \<and> y < length column) \<or>
         (\<exists>l \<in> set (line # ls). lineX l = int x \<and> lineY l = int y)"
        using sameColumn(1,2) by (auto simp: less_Suc_eq)
    qed
  next
    case newColumn
    have r: "?result = loadLines ls (maze @ [column]) [lineTile line]"
      by (simp only: loadLines_step newColumn) simp
    from newColumn(4) have "checkLines ls (n + 1) (int (length (maze @ [column])))
        (int (length [lineTile line])) = Inr ()"
      by (simp add: add.commute)
    from Cons.IH [OF this]
    have ih: "\<forall>x y. x < length ?result \<and> y < length (?result ! x) \<longrightarrow>
       (x < length (maze @ [column]) \<and> y < length ((maze @ [column]) ! x)) \<or>
       (x = length (maze @ [column]) \<and> y < length [lineTile line]) \<or>
       (\<exists>l \<in> set ls. lineX l = int x \<and> lineY l = int y)"
      unfolding r by simp
    show ?thesis
    proof (intro allI impI)
      fix x y assume "x < length ?result \<and> y < length (?result ! x)"
      with ih have "(x < length (maze @ [column]) \<and> y < length ((maze @ [column]) ! x)) \<or>
         (x = length (maze @ [column]) \<and> y < length [lineTile line]) \<or>
         (\<exists>l \<in> set ls. lineX l = int x \<and> lineY l = int y)" by blast
      then show "(x < length maze \<and> y < length (maze ! x)) \<or>
         (x = length maze \<and> y < length column) \<or>
         (\<exists>l \<in> set (line # ls). lineX l = int x \<and> lineY l = int y)"
        using newColumn(1,2) by (auto simp: less_Suc_eq nth_append)
    qed
  qed
qed

lemma loadLines_tiles:
  assumes "checkLines ls 0 0 0 = Inr ()"
  shows "(\<forall>line \<in> set ls. \<exists>x y. lineX line = int x \<and> lineY line = int y \<and>
            x < length (loadLines ls [] []) \<and> y < length (loadLines ls [] [] ! x) \<and>
            loadLines ls [] [] ! x ! y = lineTile line) \<and>
         (\<forall>x y. x < length (loadLines ls [] []) \<and> y < length (loadLines ls [] [] ! x) \<longrightarrow>
            (\<exists>line \<in> set ls. lineX line = int x \<and> lineY line = int y \<and>
               loadLines ls [] [] ! x ! y = lineTile line)) \<and>
         concat (loadLines ls [] []) = map lineTile ls"
proof -
  from assms have c: "checkLines ls 0 (int (length ([] :: Maze))) (int (length ([] :: BasicTile list))) = Inr ()"
    by simp
  from loadLines_positions [OF c]
  have p: "\<forall>line \<in> set ls. \<exists>x y. lineX line = int x \<and> lineY line = int y \<and>
            x < length (loadLines ls [] []) \<and> y < length (loadLines ls [] [] ! x) \<and>
            loadLines ls [] [] ! x ! y = lineTile line"
    and k: "concat (loadLines ls [] []) = map lineTile ls"
    by simp_all
  have s: "\<exists>line \<in> set ls. lineX line = int x \<and> lineY line = int y \<and>
               loadLines ls [] [] ! x ! y = lineTile line"
    if inside: "x < length (loadLines ls [] []) \<and> y < length (loadLines ls [] [] ! x)" for x y
  proof -
    from loadLines_sources [OF c] inside
    obtain line where l: "line \<in> set ls" "lineX line = int x" "lineY line = int y"
      by fastforce
    from p l(1) obtain x' y' where "lineX line = int x'" "lineY line = int y'"
      "loadLines ls [] [] ! x' ! y' = lineTile line" by blast
    with l have "loadLines ls [] [] ! x ! y = lineTile line" by simp
    with l show ?thesis by blast
  qed
  from p s k show ?thesis by blast
qed

lemma loadMaze_Inr:
  assumes "loadMaze mazeFile = Inr maze"
  shows "\<exists>text. mazeFile = Contents text \<and> checkLines (getlines text) 0 0 0 = Inr () \<and>
           maze = loadLines (getlines text) [] []"
proof -
  from assms have v: "isMazeFileNumType mazeFile = Inr ()"
    by (auto simp: loadMaze_def isMazeFileBinType_def isMazeFileMapType_def split: if_splits)
  from isMazeFileNumType_Inr [OF v] obtain content where
    t: "mazeFile = Contents content" "checkLines (getlines content) 0 0 0 = Inr ()" by blast
  from assms v t have "maze = loadLines (getlines content) [] []"
    by (simp add: loadMaze_def isMazeFileBinType_def isMazeFileMapType_def
        loadMazeFileNumType_def)
  with t show ?thesis by blast
qed

subsection \<open>Writing the numeric form and reading it back\<close>

lemma wellFormedTile_walls:
  assumes "wellFormedTile tile"
  shows "walls tile d = Some (wallDigit tile d = CHR ''1'')"
proof -
  from assms have "walls tile d \<noteq> None"
    by (cases d) (simp_all add: wellFormedTile_def)
  then show ?thesis by (auto simp: wallDigit_def)
qed

lemma wallEntries_wellFormed:
  assumes "wellFormedTile tile"
  shows "wallEntries tile DIRECTIONS =
           Inr ('' '' @ [wallDigit tile NORTH] @ '' '' @ [wallDigit tile EAST] @ '' '' @
                [wallDigit tile SOUTH] @ '' '' @ [wallDigit tile WEST])"
  using assms
  by (auto simp: DIRECTIONS_def wellFormedTile_def wallDigit_def)

lemma saveColumn_lines:
  assumes "list_all wellFormedTile column"
  shows "saveColumn x y column = Inr (fileText (columnLines x y column))"
  using assms
proof (induction column arbitrary: y)
  case Nil
  show ?case by (simp add: fileText_def)
next
  case (Cons tile column)
  then have w: "wellFormedTile tile" and r: "list_all wellFormedTile column" by simp_all
  show ?case
    by (simp add: wallEntries_wellFormed [OF w] Cons.IH [OF r] fileText_def writtenLine_def)
qed

lemma fileText_append: "fileText (a @ b) = fileText a @ fileText b"
  by (simp add: fileText_def)

lemma saveColumns_lines:
  assumes "wellFormed maze"
  shows "saveColumns x maze = Inr (fileText (mazeLines x maze))"
  using assms
proof (induction maze arbitrary: x)
  case Nil
  show ?case by (simp add: fileText_def)
next
  case (Cons column maze)
  then have c: "list_all wellFormedTile column" and r: "wellFormed maze"
    by (simp_all add: wellFormed_def)
  show ?case
    by (simp add: saveColumn_lines [OF c] Cons.IH [OF r] fileText_append)
qed

lemma wallDigit_cases: "wallDigit tile d = CHR ''0'' \<or> wallDigit tile d = CHR ''1''"
  by (simp add: wallDigit_def)

lemma wallDigit_not_space: "\<not> isWhitespace (wallDigit tile d)"
  using wallDigit_cases [of tile d] by (auto simp: isWhitespace_def)

lemma showNat_no_space: "\<forall>c \<in> set (showNat n). \<not> isWhitespace c"
  using showNat_digits [of n] isDigit_not_space by (auto simp: list_all_iff)

lemma tokenize_writtenLine:
  "tokenize (writtenLine x y tile) =
     [showNat x, showNat y, [wallDigit tile NORTH], [wallDigit tile EAST],
      [wallDigit tile SOUTH], [wallDigit tile WEST] ]"
proof -
  have sp: "isWhitespace (CHR '' '')" by (simp add: isWhitespace_def)
  have one: "\<forall>c \<in> set [wallDigit tile d]. \<not> isWhitespace c" for d
    by (simp add: wallDigit_not_space)
  have "tokenize (writtenLine x y tile) =
      tokenizeFrom isWhitespace []
        (showNat x @ CHR '' '' # showNat y @ CHR '' '' # [wallDigit tile NORTH] @ CHR '' '' #
         [wallDigit tile EAST] @ CHR '' '' # [wallDigit tile SOUTH] @ CHR '' '' #
         [wallDigit tile WEST])"
    by (simp add: tokenize_def writtenLine_def)
  also have "\<dots> = showNat x # showNat y # [wallDigit tile NORTH] # [wallDigit tile EAST] #
                  [wallDigit tile SOUTH] # tokenizeFrom isWhitespace [] [wallDigit tile WEST]"
    by (simp only: tokenizeFrom_token [OF showNat_no_space showNat_nonempty sp]
        tokenizeFrom_token [OF one _ sp] not_Cons_self2 simp_thms)
  also have "tokenizeFrom isWhitespace [] [wallDigit tile WEST] = [ [wallDigit tile WEST] ]"
    by (rule tokenizeFrom_last [OF one]) simp
  finally show ?thesis .
qed

lemma wallDigit_value:
  "strToInt [wallDigit tile d] = (if wallDigit tile d = CHR ''1'' then 1 else 0)"
  using wallDigit_cases [of tile d]
  by (auto simp: strToInt_def digitsToNat_def)

lemma wallDigit_isInt: "isInt [wallDigit tile d]"
  using wallDigit_cases [of tile d]
  by (auto simp: isInt_def isDigit_def)

lemma writtenLine_coordinates:
  "lineX (writtenLine x y tile) = int x" "lineY (writtenLine x y tile) = int y"
  by (simp_all add: lineX_def lineY_def tokenize_writtenLine strToInt_showNat)

lemma writtenLine_sixIntegers: "sixIntegers (writtenLine x y tile)"
  by (simp add: sixIntegers_def tokenize_writtenLine isInt_showNat wallDigit_isInt)

lemma writtenLine_binaryWalls: "binaryWalls (writtenLine x y tile)"
  by (simp add: binaryWalls_def tokenize_writtenLine wallDigit_value)

lemma writtenLine_tile:
  assumes "wellFormedTile tile"
  shows "lineTile (writtenLine x y tile) = tile"
proof -
  have "walls (lineTile (writtenLine x y tile)) d = walls tile d" for d
    by (cases d)
      (simp_all add: lineTile_def tokenize_writtenLine wallDigit_value
        wellFormedTile_walls [OF assms])
  then have "walls (lineTile (writtenLine x y tile)) = walls tile" by (rule ext)
  then show ?thesis by simp
qed

lemma checkLine_accept:
  assumes "sixIntegers line" and "binaryWalls line"
  shows "lineX line = ex \<Longrightarrow> lineY line = ey \<Longrightarrow> checkLine line n ex ey = Inr (ex, ey + 1)"
    and "lineX line = ex + 1 \<Longrightarrow> lineY line = 0 \<Longrightarrow> ey \<noteq> 0 \<Longrightarrow>
         checkLine line n ex ey = Inr (ex + 1, 1)"
proof -
  from assms have six: "length (tokenize line) = 6" by (simp add: sixIntegers_def)
  from assms have w: "firstInvalidWall (map strToInt (tokenize line)) [0, 1, 2, 3] = None"
    by (simp only: invalidWall_binary [OF six])
  from assms have n: "firstNonNumeric (tokenize line) 0 = None"
    by (simp add: sixIntegers_def firstNonNumeric_None)
  show "lineX line = ex \<Longrightarrow> lineY line = ey \<Longrightarrow> checkLine line n ex ey = Inr (ex, ey + 1)"
    using six
    by (simp add: checkLine_def Let_def lineX_def lineY_def w n
        del: firstInvalidWall.simps One_nat_def)
  show "lineX line = ex + 1 \<Longrightarrow> lineY line = 0 \<Longrightarrow> ey \<noteq> 0 \<Longrightarrow>
         checkLine line n ex ey = Inr (ex + 1, 1)"
    using six
    by (simp add: checkLine_def Let_def lineX_def lineY_def w n
        del: firstInvalidWall.simps One_nat_def)
qed

lemma checkLines_column:
  "checkLines (columnLines x y column @ rest) n (int x) (int y) =
     checkLines rest (n + length column) (int x) (int (y + length column))"
proof (induction column arbitrary: y n)
  case Nil
  show ?case by simp
next
  case (Cons tile column)
  have c: "checkLine (writtenLine x y tile) (Suc n) (int x) (int y) = Inr (int x, int y + 1)"
    by (rule checkLine_accept(1) [OF writtenLine_sixIntegers writtenLine_binaryWalls])
      (simp_all add: writtenLine_coordinates)
  have "int y + 1 = int (Suc y)" by simp
  then show ?case
    using Cons.IH [of "Suc y" "n + 1"] by (simp add: c add.commute)
qed

lemma checkLines_columns:
  assumes "list_all (\<lambda>column. column \<noteq> []) maze" and "ey \<noteq> 0"
  shows "checkLines (mazeLines (Suc x) maze) n (int x) ey = Inr ()"
  using assms
proof (induction maze arbitrary: x n ey)
  case Nil
  show ?case by simp
next
  case (Cons column maze)
  from Cons.prems obtain tile tiles where column: "column = tile # tiles"
    by (cases column) simp_all
  from Cons.prems have rest: "list_all (\<lambda>column. column \<noteq> []) maze" by simp
  have c: "checkLine (writtenLine (Suc x) 0 tile) (Suc n) (int x) ey = Inr (int x + 1, 1)"
    by (rule checkLine_accept(2) [OF writtenLine_sixIntegers writtenLine_binaryWalls])
      (simp_all add: writtenLine_coordinates Cons.prems)
  have s: "int x + 1 = int (Suc x)" "(1::int) = int (Suc 0)" by simp_all
  have "checkLines (mazeLines (Suc x) (column # maze)) n (int x) ey =
        checkLines (columnLines (Suc x) (Suc 0) tiles @ mazeLines (Suc (Suc x)) maze)
          (n + 1) (int (Suc x)) (int (Suc 0))"
    by (simp add: column c add.commute)
  also have "\<dots> = checkLines (mazeLines (Suc (Suc x)) maze) (n + 1 + length tiles)
                    (int (Suc x)) (int (Suc 0 + length tiles))"
    by (rule checkLines_column)
  also have "\<dots> = Inr ()"
    by (rule Cons.IH [OF rest]) simp
  finally show ?case .
qed

lemma checkLines_maze:
  assumes "maze \<noteq> []" and "list_all (\<lambda>column. column \<noteq> []) maze"
  shows "checkLines (mazeLines 0 maze) 0 0 0 = Inr ()"
proof -
  from assms obtain column rest where maze: "maze = column # rest" by (cases maze) simp_all
  with assms have ne: "column \<noteq> []" and r: "list_all (\<lambda>column. column \<noteq> []) rest" by simp_all
  have "checkLines (mazeLines 0 maze) 0 0 0 =
        checkLines (columnLines 0 0 column @ mazeLines (Suc 0) rest) 0 (int 0) (int 0)"
    by (simp add: maze)
  also have "\<dots> = checkLines (mazeLines (Suc 0) rest) (0 + length column) (int 0)
                    (int (0 + length column))"
    by (rule checkLines_column)
  also have "\<dots> = Inr ()"
    by (rule checkLines_columns [OF r]) (simp add: ne)
  finally show ?thesis .
qed

lemma loadLines_column:
  assumes "list_all wellFormedTile tiles" and "x \<le> length maze"
  shows "loadLines (columnLines x y tiles @ rest) maze column = loadLines rest maze (column @ tiles)"
  using assms
proof (induction tiles arbitrary: y column)
  case Nil
  show ?case by simp
next
  case (Cons tile tiles)
  then have w: "wellFormedTile tile" and r: "list_all wellFormedTile tiles" by simp_all
  show ?case
    using Cons.IH [OF r Cons.prems(2), of "Suc y" "column @ [tile]"] Cons.prems(2)
    by (simp add: loadLines_step writtenLine_coordinates writtenLine_tile [OF w]
        del: loadLines.simps)
qed

lemma loadLines_columns:
  assumes "wellFormed cols" and "list_all (\<lambda>column. column \<noteq> []) cols" and "length maze = x"
  shows "loadLines (mazeLines (Suc x) cols) maze column = maze @ [column] @ cols"
  using assms
proof (induction cols arbitrary: x maze column)
  case Nil
  show ?case by simp
next
  case (Cons c cols)
  from Cons.prems obtain tile tiles where c: "c = tile # tiles" by (cases c) simp_all
  from Cons.prems have w: "wellFormedTile tile" and ws: "list_all wellFormedTile tiles"
    and wr: "wellFormed cols" and nr: "list_all (\<lambda>column. column \<noteq> []) cols"
    by (simp_all add: c wellFormed_def)
  have "loadLines (mazeLines (Suc x) (c # cols)) maze column =
        loadLines (columnLines (Suc x) (Suc 0) tiles @ mazeLines (Suc (Suc x)) cols)
          (maze @ [column]) [tile]"
    using Cons.prems(3)
    by (simp add: c loadLines_step writtenLine_coordinates writtenLine_tile [OF w]
        del: loadLines.simps)
  also have "\<dots> = loadLines (mazeLines (Suc (Suc x)) cols) (maze @ [column]) ([tile] @ tiles)"
    by (rule loadLines_column [OF ws]) (simp add: Cons.prems(3))
  also have "\<dots> = (maze @ [column]) @ [ [tile] @ tiles] @ cols"
    by (rule Cons.IH [OF wr nr]) (simp add: Cons.prems(3))
  finally show ?case by (simp add: c)
qed

lemma loadLines_maze:
  assumes "maze \<noteq> []" and "wellFormed maze" and "list_all (\<lambda>column. column \<noteq> []) maze"
  shows "loadLines (mazeLines 0 maze) [] [] = maze"
proof -
  from assms obtain column rest where maze: "maze = column # rest" by (cases maze) simp_all
  with assms have w: "list_all wellFormedTile column" and wr: "wellFormed rest"
    and nr: "list_all (\<lambda>column. column \<noteq> []) rest"
    by (simp_all add: wellFormed_def)
  have "loadLines (mazeLines 0 maze) [] [] =
        loadLines (columnLines 0 0 column @ mazeLines (Suc 0) rest) [] []"
    by (simp add: maze)
  also have "\<dots> = loadLines (mazeLines (Suc 0) rest) [] ([] @ column)"
    by (rule loadLines_column [OF w]) simp
  also have "\<dots> = [] @ [ [] @ column] @ rest"
    by (rule loadLines_columns [OF wr nr]) simp
  finally show ?thesis by (simp add: maze)
qed

lemma writtenLine_no_newline: "CHR 0x0A \<notin> set (writtenLine x y tile)"
proof -
  have "CHR 0x0A \<notin> set (showNat n)" for n
    using showNat_digits [of n] isDigit_not_newline by (auto simp: list_all_iff)
  moreover have "CHR 0x0A \<noteq> wallDigit tile d" for d
    using wallDigit_cases [of tile d] by auto
  ultimately show ?thesis by (simp add: writtenLine_def)
qed

lemma columnLines_no_newline: "\<forall>line \<in> set (columnLines x y column). CHR 0x0A \<notin> set line"
  by (induction column arbitrary: y) (simp_all add: writtenLine_no_newline)

lemma mazeLines_no_newline: "\<forall>line \<in> set (mazeLines x maze). CHR 0x0A \<notin> set line"
  by (induction maze arbitrary: x) (auto simp: columnLines_no_newline)

lemma getlines_fileText:
  "getlines (fileText (mazeLines x maze)) = mazeLines x maze"
  unfolding fileText_def by (rule getlines_written [OF mazeLines_no_newline])

lemma rectangular_columns:
  assumes "rectangular maze"
  shows "maze \<noteq> [] \<and> list_all (\<lambda>column. column \<noteq> []) maze"
proof -
  from assms obtain column rest where m: "maze = column # rest" and c: "column \<noteq> []"
    and r: "list_all (\<lambda>c. length c = length column) rest"
    by (cases maze) (auto simp: rectangular_def)
  from c r have "list_all (\<lambda>column. column \<noteq> []) rest"
    by (auto simp: list_all_iff)
  with m c show ?thesis by simp
qed

lemma fileText_nonempty: "ls \<noteq> [] \<Longrightarrow> fileText ls \<noteq> []"
  by (cases ls) (simp_all add: fileText_def)

lemma mazeLines_nonempty:
  assumes "maze \<noteq> []" and "list_all (\<lambda>column. column \<noteq> []) maze"
  shows "mazeLines x maze \<noteq> []"
proof -
  from assms obtain tile tiles rest where "maze = (tile # tiles) # rest"
    by (cases maze; cases "hd maze") auto
  then show ?thesis by simp
qed

subsection \<open>Ordering and uniqueness of the records\<close>

text \<open>
  Claim C7. \<^verbatim>\<open>isMazeFileNumType\<close> rejects, with a warning, every file whose sequence of
  \<open>(x, y)\<close> records violates the ordering or uniqueness rules. In particular, when the first
  line is a well-formed record for \<open>(0, 0)\<close> and the second line, of six integers, carries
  \<open>X = 0\<close> and \<open>Y = 0\<close> again, the validation fails with the warning about unexpected x and
  y values that names the values 0 and 0 and line 2.
\<close>

theorem isMazeFileNumType_rejects_misordered:
  "(\<not> coordinatesWellOrdered (coordinates (getlines text)) \<longrightarrow>
      (\<exists>w. isMazeFileNumType (Contents text) = Inl w)) \<and>
   (getlines text = first # second # others \<and>
    sixIntegers first \<and> binaryWalls first \<and> lineX first = 0 \<and> lineY first = 0 \<and>
    sixIntegers second \<and> lineX second = 0 \<and> lineY second = 0 \<longrightarrow>
      isMazeFileNumType (Contents text) = Inl (UnexpectedXY 0 0 2))"
proof (intro conjI impI)
  assume bad: "\<not> coordinatesWellOrdered (coordinates (getlines text))"
  show "\<exists>w. isMazeFileNumType (Contents text) = Inl w"
  proof (cases "isMazeFileNumType (Contents text)")
    case (Inl w)
    then show ?thesis by blast
  next
    case (Inr u)
    then have "isMazeFileNumType (Contents text) = Inr ()" by simp
    from isMazeFileNumType_Inr [OF this]
    have "checkLines (getlines text) 0 0 0 = Inr ()" by simp
    from accepted_wellOrdered [OF checkLines_accepted [OF this]] bad
    show ?thesis by simp
  qed
next
  assume h: "getlines text = first # second # others \<and>
    sixIntegers first \<and> binaryWalls first \<and> lineX first = 0 \<and> lineY first = 0 \<and>
    sixIntegers second \<and> lineX second = 0 \<and> lineY second = 0"
  then have ne: "text \<noteq> []" by auto
  from h show "isMazeFileNumType (Contents text) = Inl (UnexpectedXY 0 0 2)"
    by (simp add: isMazeFileNumType_def ne checkLine_first checkLine_duplicate)
qed

theorem isMazeFileNumType_rejects_misordered_witness:
  "\<not> coordinatesWellOrdered (coordinates (getlines duplicateFile)) \<and>
   getlines duplicateFile = [''0 0 1 0 0 1'', ''0 0 1 1 0 0''] \<and>
   isMazeFileNumType (Contents duplicateFile) = Inl (UnexpectedXY 0 0 2)"
proof -
  have g: "getlines duplicateFile = [''0 0 1 0 0 1'', ''0 0 1 1 0 0'']"
    by (simp add: duplicateFile_def)
  have bad: "\<not> coordinatesWellOrdered (coordinates (getlines duplicateFile))"
    by code_simp
  have first: "sixIntegers ''0 0 1 0 0 1''" "binaryWalls ''0 0 1 0 0 1''"
    "lineX ''0 0 1 0 0 1'' = 0" "lineY ''0 0 1 0 0 1'' = 0"
    by code_simp+
  have second: "sixIntegers ''0 0 1 1 0 0''" "lineX ''0 0 1 1 0 0'' = 0"
    "lineY ''0 0 1 1 0 0'' = 0"
    by code_simp+
  note both = isMazeFileNumType_rejects_misordered
         [of duplicateFile "''0 0 1 0 0 1''" "''0 0 1 1 0 0''" "[]"]
  from both bad obtain w where w: "isMazeFileNumType (Contents duplicateFile) = Inl w"
    by blast
  from both g first second
  have "isMazeFileNumType (Contents duplicateFile) = Inl (UnexpectedXY 0 0 2)"
    by blast
  with g bad w show ?thesis by simp
qed

subsection \<open>What the loader does with the walls\<close>

lemma lopsided_lines: "getlines lopsidedFile = [''0 0 0 1 0 0'', ''1 0 0 0 0 0'']"
  by (simp add: lopsidedFile_def)

lemma lopsided_tiles:
  "lineTile ''0 0 0 1 0 0'' = wallsTile False True False False"
  "lineTile ''1 0 0 0 0 0'' = wallsTile False False False False"
  by (simp_all add: lineTile_def wallsTile_def tokenize_def isWhitespace_def strToInt_def
      digitsToNat_def)

lemma lopsided_valid: "isMazeFileNumType (Contents lopsidedFile) = Inr ()"
  by code_simp

lemma lopsided_load: "loadMaze (Contents lopsidedFile) = Inr lopsidedMaze"
  by (simp add: loadMaze_def isMazeFileBinType_def isMazeFileMapType_def lopsided_valid
      loadMazeFileNumType_def lopsided_lines loadLines_step lopsided_tiles lopsidedMaze_def
      lineX_def tokenize_def isWhitespace_def strToInt_def digitsToNat_def
      del: loadLines.simps(2))

text \<open>
  Claim C3, as stated: in every maze that \<^verbatim>\<open>loadMaze\<close> returns, edge-adjacent tiles agree on
  their shared wall. It fails for a valid file of two columns of one tile, whose first line
  gives the tile \<open>(0, 0)\<close> an east wall and whose second line gives the tile \<open>(1, 0)\<close> no west
  wall: the maze is returned as the file has it.
\<close>

theorem loadMaze_wall_symmetry_counterexample:
  "loadMaze (Contents lopsidedFile) = Inr lopsidedMaze \<and> \<not> wallsAgree lopsidedMaze \<and>
   walls (lopsidedMaze ! 0 ! 0) EAST = Some True \<and> walls (lopsidedMaze ! 1 ! 0) WEST = Some False"
  by (simp add: lopsided_load) (simp add: lopsidedMaze_def wallsAgree_def wallsTile_def)

text \<open>
  Claim C3, amended. Every maze that \<^verbatim>\<open>loadMaze\<close> returns comes from a file in the numeric
  form and holds the walls exactly as the file gives them: its tiles are, column after
  column, the tiles that the lines of the file describe, the line for \<open>(x, y)\<close> gives the tile
  at \<open>(x, y)\<close>, and every tile of the maze is given by the line for its own position. Nothing
  is symmetrized.
\<close>

theorem loadMaze_keeps_the_walls_of_the_file:
  assumes "loadMaze mazeFile = Inr maze"
  shows "\<exists>text. mazeFile = Contents text \<and>
           concat maze = map lineTile (getlines text) \<and>
           (\<forall>line \<in> set (getlines text). \<exists>x y. lineX line = int x \<and> lineY line = int y \<and>
              x < length maze \<and> y < length (maze ! x) \<and> maze ! x ! y = lineTile line) \<and>
           (\<forall>x y. x < length maze \<and> y < length (maze ! x) \<longrightarrow>
              (\<exists>line \<in> set (getlines text). lineX line = int x \<and> lineY line = int y \<and>
                 maze ! x ! y = lineTile line))"
proof -
  from loadMaze_Inr [OF assms] obtain content where
    t: "mazeFile = Contents content" and c: "checkLines (getlines content) 0 0 0 = Inr ()"
    and m: "maze = loadLines (getlines content) [] []" by blast
  from loadLines_tiles [OF c] t show ?thesis unfolding m by blast
qed

theorem loadMaze_keeps_the_walls_of_the_file_witness:
  "loadMaze (Contents lopsidedFile) = Inr lopsidedMaze \<and>
   concat lopsidedMaze = map lineTile (getlines lopsidedFile)"
  using loadMaze_keeps_the_walls_of_the_file [OF lopsided_load] lopsided_load by auto

subsection \<open>Round trip through the numeric form\<close>

text \<open>
  Claim C4. For a rectangular, well-formed maze whose dimensions fit the writer's counters,
  \<^verbatim>\<open>saveMazeFileNumType\<close> writes the tiles column after column, one line per tile holding \<open>x\<close>,
  \<open>y\<close> and the four walls in the order north, east, south, west, and \<^verbatim>\<open>loadMazeFileNumType\<close>
  reads the written file back as the same maze.
\<close>

theorem numeric_round_trip:
  assumes "rectangular maze" and "wellFormed maze" and "fitsInt maze"
  shows "saveMazeFileNumType maze True = Inr (Some (fileText (mazeLines 0 maze))) \<and>
         loadMazeFileNumType (Contents (fileText (mazeLines 0 maze))) = Inr maze"
proof -
  from rectangular_columns [OF assms(1)]
  have ne: "maze \<noteq> []" and cols: "list_all (\<lambda>column. column \<noteq> []) maze" by simp_all
  have s: "saveMazeFileNumType maze True = Inr (Some (fileText (mazeLines 0 maze)))"
    by (simp add: saveMazeFileNumType_def saveColumns_lines [OF assms(2)])
  have v: "isMazeFileNumType (Contents (fileText (mazeLines 0 maze))) = Inr ()"
    by (simp add: isMazeFileNumType_def fileText_nonempty [OF mazeLines_nonempty [OF ne cols]]
        getlines_fileText checkLines_maze [OF ne cols])
  have "loadMazeFileNumType (Contents (fileText (mazeLines 0 maze))) = Inr maze"
    by (simp add: loadMazeFileNumType_def v getlines_fileText loadLines_maze [OF ne assms(2) cols])
  with s show ?thesis by simp
qed

theorem numeric_round_trip_witness:
  "rectangular scenarioMaze \<and> wellFormed scenarioMaze \<and> fitsInt scenarioMaze \<and>
   saveMazeFileNumType scenarioMaze True = Inr (Some scenarioS1) \<and>
   loadMazeFileNumType (Contents scenarioS1) = Inr scenarioMaze"
proof -
  have r: "rectangular scenarioMaze"
    by (simp add: rectangular_def scenarioMaze_def)
  have w: "wellFormed scenarioMaze"
    by (auto simp: wellFormed_def wellFormedTile_def scenarioMaze_def wallsTile_def)
  have f: "fitsInt scenarioMaze"
    by (simp add: fitsInt_def scenarioMaze_def)
  have d: "wallDigit (wallsTile n e s w) NORTH = (if n then CHR ''1'' else CHR ''0'')"
    "wallDigit (wallsTile n e s w) EAST = (if e then CHR ''1'' else CHR ''0'')"
    "wallDigit (wallsTile n e s w) SOUTH = (if s then CHR ''1'' else CHR ''0'')"
    "wallDigit (wallsTile n e s w) WEST = (if w then CHR ''1'' else CHR ''0'')" for n e s w
    by (simp_all add: wallDigit_def wallsTile_def)
  have n: "showNat 0 = ''0''" "showNat (Suc 0) = ''1''"
    by code_simp+
  have t: "fileText (mazeLines 0 scenarioMaze) = scenarioS1"
    by (simp add: scenarioMaze_def scenarioS1_def fileText_def writtenLine_def d n)
  from numeric_round_trip [OF r w f] r w f show ?thesis
    by (simp add: t)
qed

subsection \<open>The map form\<close>

lemma flipColumn_take: "j \<le> length column \<Longrightarrow> flipColumn column j = rev (take j column)"
  by (induction j) (simp_all add: take_Suc_conv_app_nth)

lemma flipMaze_rev: "flipMaze maze = map rev maze"
  by (simp add: flipMaze_def flipColumn_take)

lemma stripLastRow_butlast: "stripLastRow maze = Inr stripped \<Longrightarrow> stripped = map butlast maze"
  by (induction maze arbitrary: stripped) (auto split: if_splits sum.splits)

lemma readMapFile_Inr:
  assumes "readMapFile content = Inr maze"
  shows "\<exists>upsideDown. readMapLines (getlines content) [] 0 = Inr upsideDown \<and>
           maze = map rev (map butlast upsideDown)"
  using assms
  by (auto simp: readMapFile_def flipMaze_rev split: sum.splits dest: stripLastRow_butlast)

lemma exampleMap_lines:
  "getlines exampleMap =
     [''+---+---+'', ''|       |'', ''+   +---+'', ''|   |   |'', ''+---+---+'']"
  by (simp add: exampleMap_def)

lemma exampleMap_table:
  "(case readMapFile exampleMap of Inl e \<Rightarrow> None | Inr maze \<Rightarrow> Some (wallTable maze)) =
     Some [ [ [Some False, Some True, Some True, Some True],
            [Some True, Some False, Some False, Some True] ],
           [ [Some True, Some True, Some True, Some True],
            [Some True, Some True, Some True, Some False] ] ]"
  by code_simp

lemma exampleMap_upsideDown:
  "(case readMapLines (getlines exampleMap) [] 0 of Inl e \<Rightarrow> None
    | Inr maze \<Rightarrow> Some (wallTable maze)) =
     Some [ [ [Some True, Some False, Some False, Some True],
            [Some False, Some True, Some True, Some True],
            [Some True, None, None, None] ],
           [ [Some True, Some True, Some True, Some False],
            [Some True, Some True, Some True, Some True],
            [Some True, None, None, None] ] ]"
  by code_simp

text \<open>
  Claim C8, as stated: a maze file in the map form is recognised by the format detection and
  loaded as a vertically flipped grid. It fails for a map of two by two tiles: the detection
  answers no, the map loader stops at its opening assertion, and \<^verbatim>\<open>loadMaze\<close> fails as well,
  the numeric validation having rejected the first line.
\<close>

theorem map_form_detection_counterexample:
  "\<not> isMazeFileMapType (Contents exampleMap) \<and>
   loadMazeFileMapType (Contents exampleMap) = Inl AssertionFailed \<and>
   loadMaze (Contents exampleMap) = Inl AssertionFailed"
proof -
  have "isMazeFileNumType (Contents exampleMap) = Inl (NotSixEntries 1 1)"
    by code_simp
  then show ?thesis
    by (simp add: isMazeFileMapType_def loadMazeFileMapType_def loadMaze_def
        isMazeFileBinType_def)
qed

text \<open>
  Claim C8, amended. No file is recognised as the map form: \<^verbatim>\<open>isMazeFileMapType\<close> answers no
  for every file, so \<^verbatim>\<open>isMazeFile\<close> and \<^verbatim>\<open>loadMaze\<close> accept and load numeric files only, and
  \<^verbatim>\<open>loadMazeFileMapType\<close> fails its opening assertion for every file. The statements below that
  assertion, whenever they produce a grid, return every column of the grid read from the
  text without its last, extraneous tile and in reverse order, so that the row read last
  is at \<open>y = 0\<close>.
\<close>

theorem map_form_is_never_recognised:
  "\<not> isMazeFileMapType mazeFile \<and>
   loadMazeFileMapType mazeFile = Inl AssertionFailed \<and>
   isMazeFile mazeFile = (isMazeFileNumType mazeFile = Inr ()) \<and>
   loadMaze mazeFile =
     (if isMazeFileNumType mazeFile = Inr () then loadMazeFileNumType mazeFile
      else Inl AssertionFailed) \<and>
   (readMapFile content = Inr maze \<longrightarrow>
      (\<exists>upsideDown. readMapLines (getlines content) [] 0 = Inr upsideDown \<and>
         maze = map rev (map butlast upsideDown)))"
  using readMapFile_Inr
  by (simp add: isMazeFileMapType_def loadMazeFileMapType_def isMazeFile_def
      isMazeFileBinType_def loadMaze_def)

theorem map_form_is_never_recognised_witness:
  "\<exists>maze upsideDown. readMapFile exampleMap = Inr maze \<and>
     readMapLines (getlines exampleMap) [] 0 = Inr upsideDown \<and>
     maze = map rev (map butlast upsideDown) \<and>
     wallTable maze =
       [ [ [Some False, Some True, Some True, Some True],
         [Some True, Some False, Some False, Some True] ],
        [ [Some True, Some True, Some True, Some True],
         [Some True, Some True, Some True, Some False] ] ]"
proof -
  from exampleMap_table obtain maze where m: "readMapFile exampleMap = Inr maze"
    and t: "wallTable maze =
       [ [ [Some False, Some True, Some True, Some True],
         [Some True, Some False, Some False, Some True] ],
        [ [Some True, Some True, Some True, Some True],
         [Some True, Some True, Some True, Some False] ] ]"
    by (cases "readMapFile exampleMap") simp_all
  from map_form_is_never_recognised [of "Contents exampleMap" exampleMap maze] m
  obtain upsideDown where "readMapLines (getlines exampleMap) [] 0 = Inr upsideDown"
    "maze = map rev (map butlast upsideDown)" by blast
  with m t show ?thesis by blast
qed

end
